theory Spec2Isabelle
  imports Complex_Main "HOL-Library.Char_ord" "HOL-Library.List_Lexorder" "HOL-Library.Product_Lexorder"
begin

section \<open>Python values used by the shipment generator\<close>

text \<open>
  The generator is Python. Its unbounded integers are \<open>int\<close>. A Python \<open>float\<close> is
  modelled by \<open>pyfloat\<close>: a finite value is the rational it denotes, and the three
  special values are kept apart because the code treats them differently (\<open>int(inf)\<close> raises \<open>OverflowError\<close>,
  \<open>int(nan)\<close> raises \<open>ValueError\<close>, \<open>pd.isna(nan)\<close> holds).
\<close>

datatype pyfloat = Fin rat | PInf | NInf | NaN

text \<open>Decimal printing of an integer: Python's \<open>str(n)\<close> and \<open>f"{n}"\<close>.\<close>

definition digit_char :: "nat \<Rightarrow> char" where
  "digit_char d = ''0123456789'' ! d"

fun str_nat :: "nat \<Rightarrow> string" where
  "str_nat n = (if n < 10 then [digit_char n] else str_nat (n div 10) @ [digit_char (n mod 10)])"

declare str_nat.simps [simp del]

definition str_int :: "int \<Rightarrow> string" where
  "str_int i = (if i < 0 then CHR ''-'' # str_nat (nat (- i)) else str_nat (nat i))"

text \<open>Truncation towards zero: \<open>int(x)\<close> on a finite float or a decimal.\<close>

definition py_trunc :: "rat \<Rightarrow> int" where
  "py_trunc r = (if r < 0 then - \<lfloor>- r\<rfloor> else \<lfloor>r\<rfloor>)"

text \<open>
  Library functions the code calls are parameters of the model, so that nothing is
  assumed about them:
  \<open>py_float\<close> is the builtin \<open>float\<close> on a text (\<open>None\<close>: it raises \<open>ValueError\<close>);
  \<open>float_of_int\<close> is \<open>float\<close> on an integer, which rounds to the nearest double and
  raises \<open>OverflowError\<close> (\<open>None\<close>) beyond the range of a double;
  \<open>float_of_decimal\<close> is \<open>float\<close> on a numeric value read from the store;
  \<open>float_mul\<close> is the product of two floats and \<open>float_round4\<close> is \<open>round(x, 4)\<close>;
  \<open>float_repr\<close> is \<open>str\<close> of a float; \<open>md5_hexdigest\<close> is
  \<open>hashlib.md5(b).hexdigest()\<close>; and \<open>strftime_minute\<close> formats a point in time,
  counted in minutes, with \<open>'%Y-%m-%d %H:%M'\<close>.
\<close>

record library =
  py_float :: "string \<Rightarrow> pyfloat option"
  float_of_int :: "int \<Rightarrow> pyfloat option"
  float_of_decimal :: "rat \<Rightarrow> pyfloat"
  float_mul :: "pyfloat \<Rightarrow> pyfloat \<Rightarrow> pyfloat"
  float_round4 :: "pyfloat \<Rightarrow> pyfloat"
  float_repr :: "pyfloat \<Rightarrow> string"
  md5_hexdigest :: "string \<Rightarrow> string"
  strftime_minute :: "int \<Rightarrow> string"

text \<open>A nullable database column: \<open>Null\<close> is SQL NULL, which the connector returns as \<open>None\<close>.\<close>

datatype 'a sql = Null | Val 'a

section \<open>The relational store\<close>

text \<open>
  The schema is not part of the repository; the tables are modelled from the queries.
  A table maps the key of its \<open>WHERE\<close> clause to the row (\<open>fetchone\<close>), \<open>None\<close> when
  no row matches. \<open>execute_query\<close> also returns \<open>None\<close> when the query raises, so a
  failed query and a missing row are the same branch. A numeric column holds the
  rational its value denotes (the connector yields \<open>Decimal\<close>, \<open>int\<close> or \<open>float\<close>).
\<close>

record dados_produtos_row =
  nombre :: "string sql"
  codigo_commodity :: "string sql"
  hl_por_pallet :: "rat sql"
  bultos_x_pallet :: "rat sql"

record maestro_envases_row =
  descripcion :: "string sql"
  hl_x_pallet :: "rat sql"
  envase_bultos_x_pallet :: "rat sql"

type_synonym shipment_sequence = "int sql list"

record database =
  dados_produtos :: "int \<rightharpoonup> dados_produtos_row"
  maestro_envases :: "int \<rightharpoonup> maestro_envases_row"
  maestro_dtto :: "string \<rightharpoonup> int sql"
  sequence_rows :: shipment_sequence


section \<open>SequenceAllocator: \<open>DatabaseManager.get_next_reference_number\<close>\<close>

text \<open>
  The table \<open>shipment_sequence\<close> is a list of rows in ascending \<open>id\<close> order; a row is
  its column \<open>last_reference_number\<close>. The query
  \<open>ORDER BY id DESC LIMIT 1\<close> reads the last element. Only committed data is kept:
  the method rolls back an open transaction before it reads.

  The storage may fail; the environment decides where. \<open>SelectFails\<close>: the cursor or the
  SELECT raises. \<open>InsertFails\<close>: the INSERT of the seed row (or its commit) raises.
  \<open>UpdateFails\<close>: the UPDATE (or its commit) raises, after a seed row, if one was
  needed, has been committed. Every failure ends in the \<open>except\<close> branch, which returns
  \<open>"11"\<close> followed by the first ten characters of the clock string
  \<open>strftime("%H%M%S%f")\<close>.
\<close>

datatype db_fault = NoFault | SelectFails | InsertFails | UpdateFails

definition fallback_number :: "string \<Rightarrow> string" where
  "fallback_number timestamp = ''11'' @ take 10 timestamp"

definition update_last :: "shipment_sequence \<Rightarrow> int \<Rightarrow> shipment_sequence" where
  "update_last seq n = (if seq = [] then [] else butlast seq @ [Val n])"

text \<open>
  \<open>stored_number\<close> is the test \<open>result and result['last_reference_number']\<close>: it
  yields a number only when a row exists and its value is neither NULL nor zero.
\<close>

definition stored_number :: "shipment_sequence \<Rightarrow> int option" where
  "stored_number seq =
     (if seq = [] then None
      else case last seq of Null \<Rightarrow> None | Val n \<Rightarrow> if n = 0 then None else Some n)"

definition get_next_reference_number ::
  "db_fault \<Rightarrow> string \<Rightarrow> shipment_sequence \<Rightarrow> string \<times> shipment_sequence" where
  "get_next_reference_number fault timestamp seq =
     (if fault = SelectFails then (fallback_number timestamp, seq)
      else case stored_number seq of
        Some n \<Rightarrow>
          (if fault = UpdateFails then (fallback_number timestamp, seq)
           else (str_int (n + 1), update_last seq (n + 1)))
      | None \<Rightarrow>
          (if fault = InsertFails then (fallback_number timestamp, seq)
           else if fault = UpdateFails then (fallback_number timestamp, seq @ [Val 11111])
           else (str_int 11111, update_last (seq @ [Val 11111]) 11111)))"

text \<open>\<open>n\<close> successive calls, none of which meets a storage failure.\<close>

fun allocate :: "nat \<Rightarrow> string \<Rightarrow> shipment_sequence \<Rightarrow> string list \<times> shipment_sequence" where
  "allocate 0 timestamp seq = ([], seq)"
| "allocate (Suc n) timestamp seq =
     (let (r, seq') = get_next_reference_number NoFault timestamp seq;
          (rs, seq'') = allocate n timestamp seq'
      in (r # rs, seq''))"

text \<open>
  The table after a series of calls, each with the failure the environment chose for it
  and its clock string.
\<close>

fun run_calls :: "(db_fault \<times> string) list \<Rightarrow> shipment_sequence \<Rightarrow> shipment_sequence" where
  "run_calls [] seq = seq"
| "run_calls ((fault, timestamp) # rest) seq =
     run_calls rest (snd (get_next_reference_number fault timestamp seq))"

section \<open>MasterDataResolver: the lookup methods of \<open>DatabaseManager\<close>\<close>

text \<open>
  Each method wraps its body in \<open>try/except Exception\<close> and returns its default there, so
  none of them raises. The route keys are built from the integer codes with an f-string.
\<close>

definition ruta :: "int \<Rightarrow> int \<Rightarrow> string" where
  "ruta origen destino = ''BO_'' @ str_int origen @ ''-BO_'' @ str_int destino"

definition get_priority :: "database \<Rightarrow> int \<Rightarrow> int \<Rightarrow> int sql" where
  "get_priority d origen destino =
     (case maestro_dtto d (ruta origen destino) of
        Some prioridad \<Rightarrow> prioridad
      | None \<Rightarrow>
          (case maestro_dtto d (ruta destino origen) of
             Some prioridad \<Rightarrow> prioridad
           | None \<Rightarrow> Val 1))"

definition producto_default :: "int \<Rightarrow> string" where
  "producto_default codigo_prod = ''PRODUCTO_'' @ str_int codigo_prod"

definition get_sku_name :: "database \<Rightarrow> int \<Rightarrow> string sql" where
  "get_sku_name d codigo_prod =
     (case dados_produtos d codigo_prod of
        Some result \<Rightarrow> nombre result
      | None \<Rightarrow>
          (case maestro_envases d codigo_prod of
             Some result \<Rightarrow> descripcion result
           | None \<Rightarrow> Val (producto_default codigo_prod)))"

definition get_commodity :: "database \<Rightarrow> int \<Rightarrow> string" where
  "get_commodity d codigo_prod =
     (case dados_produtos d codigo_prod of
        Some result \<Rightarrow>
          (case codigo_commodity result of
             Val c \<Rightarrow> if c = [] then ''BO_BR'' else c
           | Null \<Rightarrow> ''BO_BR'')
      | None \<Rightarrow> ''BO_BR'')"

text \<open>
  \<open>truthy_rate\<close> is the test \<open>result and result[column]\<close> on a numeric column: the row
  exists and the value is neither NULL nor zero.
\<close>

definition truthy_rate :: "rat sql option \<Rightarrow> rat option" where
  "truthy_rate r =
     (case r of
        Some (Val x) \<Rightarrow> if x = 0 then None else Some x
      | _ \<Rightarrow> None)"

text \<open>
  \<open>get_hectolitros\<close> computes \<open>round(float(rate) * float(pallets), 4)\<close>. When
  \<open>float(pallets)\<close> raises, the \<open>except\<close> branch of the method returns \<open>0.0\<close>.
\<close>

definition hectolitros_of_rate :: "library \<Rightarrow> rat \<Rightarrow> int \<Rightarrow> pyfloat" where
  "hectolitros_of_rate lib rate pallets =
     (case float_of_int lib pallets of
        None \<Rightarrow> Fin 0
      | Some float_pallets \<Rightarrow>
          float_round4 lib (float_mul lib (float_of_decimal lib rate) float_pallets))"

definition get_hectolitros :: "library \<Rightarrow> database \<Rightarrow> int \<Rightarrow> int \<Rightarrow> pyfloat" where
  "get_hectolitros lib d codigo_prod pallets =
     (case truthy_rate (map_option hl_por_pallet (dados_produtos d codigo_prod)) of
        Some rate \<Rightarrow> hectolitros_of_rate lib rate pallets
      | None \<Rightarrow>
          (case truthy_rate (map_option hl_x_pallet (maestro_envases d codigo_prod)) of
             Some rate \<Rightarrow> hectolitros_of_rate lib rate pallets
           | None \<Rightarrow> Fin 0))"

text \<open>\<open>get_bultos\<close> computes \<open>int(rate) * int(pallets)\<close>.\<close>

definition get_bultos :: "database \<Rightarrow> int \<Rightarrow> int \<Rightarrow> int" where
  "get_bultos d codigo_prod pallets =
     (case truthy_rate (map_option bultos_x_pallet (dados_produtos d codigo_prod)) of
        Some rate \<Rightarrow> py_trunc rate * pallets
      | None \<Rightarrow>
          (case truthy_rate (map_option envase_bultos_x_pallet (maestro_envases d codigo_prod)) of
             Some rate \<Rightarrow> py_trunc rate * pallets
           | None \<Rightarrow> 0))"

section \<open>Manifest rows\<close>

text \<open>
  A cell of the input table as pandas hands it to the code: a missing object (\<open>None\<close>),
  an integer, a float (a missing numeric cell is the float \<open>nan\<close>) or a text. A row
  (\<open>pd.Series\<close>, or the \<open>dict\<close> made from it) maps column names to cells. Column names
  are UTF-8 byte strings, so the accented letters of the source are two bytes each.
\<close>

datatype cell = CNone | CInt int | CFloat pyfloat | CStr string

type_synonym row = "string \<rightharpoonup> cell"

definition col_cod_envio :: string where
  "col_cod_envio = ''C'' @ [CHR 0xC3, CHR 0xB3] @ ''d. Env'' @ [CHR 0xC3, CHR 0xAD] @ ''o''"

definition col_cod_prod :: string where
  "col_cod_prod = ''C'' @ [CHR 0xC3, CHR 0xB3] @ ''d. Prod''"

definition col_cod_origen :: string where
  "col_cod_origen = ''C'' @ [CHR 0xC3, CHR 0xB3] @ ''d. Origen''"

definition col_cod_destino :: string where
  "col_cod_destino = ''C'' @ [CHR 0xC3, CHR 0xB3] @ ''d. Destino''"

definition col_operador :: string where
  "col_operador = ''Operador Log'' @ [CHR 0xC3, CHR 0xAD] @ ''stico''"

definition col_viaje :: string where
  "col_viaje = ''# Viaje''"

definition col_pallets :: string where
  "col_pallets = ''Pallets''"

definition col_peso :: string where
  "col_peso = ''Peso Total Carga''"

definition col_pallet_ret :: string where
  "col_pallet_ret = ''Pallet_Retornable''"

text \<open>
  Exceptions are values. \<open>row[k]\<close> raises \<open>KeyError\<close> on a missing column; \<open>int\<close> of an
  infinite float and \<open>float\<close> of an integer beyond the range of a double raise
  \<open>OverflowError\<close>, each with its own message; \<open>float\<close> of an unparsable text and
  \<open>int\<close> of \<open>nan\<close> raise \<open>ValueError\<close>. \<open>str_error\<close> is \<open>str(e)\<close>.
\<close>

datatype py_error = KeyError string | OverflowError string | ValueError string

definition float_infinity_error :: py_error where
  "float_infinity_error = OverflowError ''cannot convert float infinity to integer''"

definition int_too_large_error :: py_error where
  "int_too_large_error = OverflowError ''int too large to convert to float''"

definition str_error :: "py_error \<Rightarrow> string" where
  "str_error e =
     (case e of
        KeyError k \<Rightarrow> [CHR 0x27] @ k @ [CHR 0x27]
      | OverflowError m \<Rightarrow> m
      | ValueError m \<Rightarrow> m)"

definition py_bind :: "py_error + 'a \<Rightarrow> ('a \<Rightarrow> py_error + 'b) \<Rightarrow> py_error + 'b" where
  "py_bind m f = (case m of Inl e \<Rightarrow> Inl e | Inr v \<Rightarrow> f v)"

definition getitem :: "row \<Rightarrow> string \<Rightarrow> py_error + cell" where
  "getitem r k = (case r k of None \<Rightarrow> Inl (KeyError k) | Some c \<Rightarrow> Inr c)"

text \<open>
  What the outside world does during one call of \<open>process_record\<close>: whether the
  sequence storage fails, the clock string of the fallback number, and
  \<open>datetime.now()\<close> in minutes.
\<close>

record moment =
  seq_fault :: db_fault
  clock_hmsf :: string
  now_minute :: int

definition py_isspace :: "char \<Rightarrow> bool" where
  "py_isspace c =
     (c \<in> set [CHR 0x09, CHR 0x0A, CHR 0x0B, CHR 0x0C, CHR 0x0D,
                CHR 0x1C, CHR 0x1D, CHR 0x1E, CHR 0x1F, CHR 0x20])"

definition py_strip :: "string \<Rightarrow> string" where
  "py_strip s = rev (dropWhile py_isspace (rev (dropWhile py_isspace s)))"

definition pd_isna :: "cell \<Rightarrow> bool" where
  "pd_isna c = (case c of CNone \<Rightarrow> True | CFloat NaN \<Rightarrow> True | _ \<Rightarrow> False)"

definition py_int_of_float :: "pyfloat \<Rightarrow> py_error + int" where
  "py_int_of_float f =
     (case f of
        Fin r \<Rightarrow> Inr (py_trunc r)
      | NaN \<Rightarrow> Inl (ValueError ''cannot convert float NaN to integer'')
      | _ \<Rightarrow> Inl float_infinity_error)"

text \<open>
  \<open>safe_int_conversion\<close> catches \<open>ValueError\<close> and \<open>TypeError\<close> only: the
  \<open>OverflowError\<close> of an infinite value leaves the function.
\<close>

definition except_ValueError :: "py_error + int \<Rightarrow> int \<Rightarrow> py_error + int" where
  "except_ValueError m dflt =
     (case m of
        Inl (ValueError _) \<Rightarrow> Inr dflt
      | _ \<Rightarrow> m)"

definition safe_int_conversion :: "library \<Rightarrow> cell \<Rightarrow> int \<Rightarrow> py_error + int" where
  "safe_int_conversion lib v dflt =
     (if pd_isna v \<or> v = CStr [] then Inr dflt
      else case v of
        CInt i \<Rightarrow> Inr i
      | CFloat f \<Rightarrow> except_ValueError (py_int_of_float f) dflt
      | CStr s \<Rightarrow>
          (let value_str = py_strip s
           in if value_str = [] then Inr dflt
              else except_ValueError
                     (case py_float lib value_str of
                        None \<Rightarrow> Inl (ValueError ''could not convert string to float'')
                      | Some f \<Rightarrow> py_int_of_float f) dflt)
      | CNone \<Rightarrow> Inr dflt)"

text \<open>
  A number is an \<open>int\<close> or a \<open>float\<close>. \<open>safe_numeric_conversion\<close> returns its default
  as it was passed (the caller passes the integer \<open>0\<close>) and a float otherwise. It catches
  the same two exceptions. Its \<open>float(value)\<close> on an integer raises \<open>OverflowError\<close>
  when the integer is beyond the range of a double, and that leaves the function too.
\<close>

datatype pynum = NInt int | NFloat pyfloat

definition safe_numeric_conversion :: "library \<Rightarrow> cell \<Rightarrow> pynum \<Rightarrow> py_error + pynum" where
  "safe_numeric_conversion lib v dflt =
     (if pd_isna v \<or> v = CStr [] then Inr dflt
      else case v of
        CInt i \<Rightarrow>
          (case float_of_int lib i of
             None \<Rightarrow> Inl int_too_large_error
           | Some f \<Rightarrow> Inr (NFloat f))
      | CFloat f \<Rightarrow> Inr (NFloat f)
      | CStr s \<Rightarrow>
          (let value_str = py_strip s
           in if value_str = [] then Inr dflt
              else case py_float lib value_str of
                     None \<Rightarrow> Inr dflt
                   | Some f \<Rightarrow> Inr (NFloat f))
      | CNone \<Rightarrow> Inr dflt)"

text \<open>\<open>str(v)\<close> of a cell, as an f-string formats it.\<close>

definition py_str :: "library \<Rightarrow> cell \<Rightarrow> string" where
  "py_str lib v =
     (case v of
        CNone \<Rightarrow> ''None''
      | CInt i \<Rightarrow> str_int i
      | CFloat f \<Rightarrow> float_repr lib f
      | CStr s \<Rightarrow> s)"

section \<open>RecordExpander: identifiers\<close>

text \<open>The constants set in \<open>ShipmentXMLGenerator.__init__\<close>.\<close>

definition COUNTRY_CHAR :: string where
  "COUNTRY_CHAR = ''BO''"

definition PALLET_PRODUCT_CODE :: int where
  "PALLET_PRODUCT_CODE = 1100"

definition PALLET_QUANTITY :: int where
  "PALLET_QUANTITY = 24"

definition WEIGHT_PER_UNIT :: int where
  "WEIGHT_PER_UNIT = 45"


text \<open>
  \<open>generate_unique_route_correlative\<close>: the loop over all rows of the file converts three
  cells of every row, so an infinite value in any row makes it raise. \<open>row.get(k)\<close> is
  \<open>None\<close> for a missing column.
\<close>

definition row_get :: "row \<Rightarrow> string \<Rightarrow> cell" where
  "row_get r k = (case r k of None \<Rightarrow> CNone | Some c \<Rightarrow> c)"

definition route_key :: "int \<Rightarrow> int \<Rightarrow> string" where
  "route_key origen destino = str_int origen @ ''-'' @ str_int destino"

fun viaje_routes_loop :: "library \<Rightarrow> int \<Rightarrow> row list \<Rightarrow> string list \<Rightarrow> py_error + string list" where
  "viaje_routes_loop lib viaje_number [] viaje_routes = Inr viaje_routes"
| "viaje_routes_loop lib viaje_number (shipment # rest) viaje_routes =
     py_bind (safe_int_conversion lib (row_get shipment col_viaje) 0) (\<lambda>ship_viaje.
     py_bind (safe_int_conversion lib (row_get shipment col_cod_origen) 0) (\<lambda>ship_origen.
     py_bind (safe_int_conversion lib (row_get shipment col_cod_destino) 0) (\<lambda>ship_destino.
       viaje_routes_loop lib viaje_number rest
         (if ship_viaje = viaje_number \<and> route_key ship_origen ship_destino \<notin> set viaje_routes
          then viaje_routes @ [route_key ship_origen ship_destino]
          else viaje_routes))))"

fun list_index :: "'a list \<Rightarrow> 'a \<Rightarrow> nat option" where
  "list_index [] x = None"
| "list_index (y # ys) x = (if y = x then Some 0 else map_option Suc (list_index ys x))"

definition generate_unique_route_correlative ::
  "library \<Rightarrow> int \<Rightarrow> int \<Rightarrow> int \<Rightarrow> row list \<Rightarrow> py_error + int" where
  "generate_unique_route_correlative lib viaje_number origen destino all_shipments =
     py_bind (viaje_routes_loop lib viaje_number all_shipments []) (\<lambda>viaje_routes.
       let route_index =
             (case list_index (sort viaje_routes) (route_key origen destino) of
                Some i \<Rightarrow> int i + 1
              | None \<Rightarrow> 1)
       in Inr (viaje_number * 100 + route_index))"

text \<open>
  \<open>generate_shipment_number\<close>: \<open>row_data.get(k, '')\<close> is the empty text for a missing
  column. \<open>int(h[:8], 16)\<close> reads the first eight digits of the digest, which is always
  32 lower-case hexadecimal digits.
\<close>

definition row_get_str :: "library \<Rightarrow> row \<Rightarrow> string \<Rightarrow> string" where
  "row_get_str lib r k = (case r k of None \<Rightarrow> [] | Some c \<Rightarrow> py_str lib c)"

definition hex_digit :: "char \<Rightarrow> nat" where
  "hex_digit c =
     (case list_index ''0123456789abcdef'' c of Some i \<Rightarrow> i | None \<Rightarrow> 0)"

definition int_base16 :: "string \<Rightarrow> nat" where
  "int_base16 s = foldl (\<lambda>acc c. 16 * acc + hex_digit c) 0 s"

definition unique_string :: "library \<Rightarrow> row \<Rightarrow> int \<Rightarrow> string" where
  "unique_string lib row_data index =
     row_get_str lib row_data col_cod_envio @ ''-'' @ row_get_str lib row_data col_cod_prod @ ''-'' @
     row_get_str lib row_data col_cod_origen @ ''-'' @ row_get_str lib row_data col_cod_destino @ ''-'' @
     str_int index"

definition generate_shipment_number :: "library \<Rightarrow> row \<Rightarrow> int \<Rightarrow> string" where
  "generate_shipment_number lib row_data index =
     (let hash_short = int_base16 (take 8 (md5_hexdigest lib (unique_string lib row_data index)));
          final_number = 2226500000 + hash_short mod 999999
      in COUNTRY_CHAR @ str_nat final_number)"

section \<open>RecordExpander: the record group of one row\<close>

text \<open>
  A value stored in an output record: a text, an integer, a float, or \<open>None\<close> (a NULL
  read from the store). An output record is the Python \<open>dict\<close> with the twenty fixed
  keys; the key \<open>'Type'\<close> is the field \<open>RecType\<close>.
\<close>

datatype pyval = VStr string | VInt int | VFloat pyfloat | VNone

record xml_record =
  RecType :: pyval
  Shipment_Number :: pyval
  Shipment_Desription :: pyval
  Commodity :: pyval
  Priority :: pyval
  OriginLocation :: pyval
  DestinationLocation :: pyval
  PickupFrom :: pyval
  PickupTo :: pyval
  DeliveryFrom :: pyval
  DeliveryTo :: pyval
  Carrier :: pyval
  Service :: pyval
  ReferenceNumberType :: pyval
  ReferenceNumber :: pyval
  Quantity :: pyval
  Weight :: pyval
  Hectolitros :: pyval
  Bultos :: pyval
  Pallets :: pyval

definition blank_record :: "string \<Rightarrow> xml_record" where
  "blank_record t =
     \<lparr> RecType = VStr t, Shipment_Number = VStr [], Shipment_Desription = VStr [],
       Commodity = VStr [], Priority = VStr [], OriginLocation = VStr [],
       DestinationLocation = VStr [], PickupFrom = VStr [], PickupTo = VStr [],
       DeliveryFrom = VStr [], DeliveryTo = VStr [], Carrier = VStr [], Service = VStr [],
       ReferenceNumberType = VStr [], ReferenceNumber = VStr [], Quantity = VStr [],
       Weight = VStr [], Hectolitros = VStr [], Bultos = VStr [], Pallets = VStr [] \<rparr>"

text \<open>A number as the value of a record field.\<close>

definition pyval_of_num :: "pynum \<Rightarrow> pyval" where
  "pyval_of_num n = (case n of NInt i \<Rightarrow> VInt i | NFloat f \<Rightarrow> VFloat f)"

text \<open>
  \<open>process_weight\<close>: the base weight plus an integer. Two integers add to an integer; a
  float plus an integer is a float, here the exact sum. The method catches every
  exception itself, so it never raises.
\<close>

definition process_weight :: "pynum \<Rightarrow> int \<Rightarrow> pynum" where
  "process_weight base_weight quantity =
     (case base_weight of
        NInt i \<Rightarrow> NInt (i + quantity * WEIGHT_PER_UNIT)
      | NFloat (Fin r) \<Rightarrow> NFloat (Fin (r + of_int (quantity * WEIGHT_PER_UNIT)))
      | NFloat other \<Rightarrow> NFloat other)"

record dates =
  pickup_from :: string
  pickup_to :: string
  delivery_from :: string
  delivery_to :: string

definition calculate_dates :: "library \<Rightarrow> int \<Rightarrow> dates" where
  "calculate_dates lib base_date =
     \<lparr> pickup_from = strftime_minute lib base_date,
       pickup_to = strftime_minute lib (base_date + 20 * 1440),
       delivery_from = strftime_minute lib (base_date + 1),
       delivery_to = strftime_minute lib (base_date + 25 * 1440) \<rparr>"

definition sql_str :: "string sql \<Rightarrow> pyval" where
  "sql_str v = (case v of Null \<Rightarrow> VNone | Val s \<Rightarrow> VStr s)"

definition sql_int :: "int sql \<Rightarrow> pyval" where
  "sql_int v = (case v of Null \<Rightarrow> VNone | Val i \<Rightarrow> VInt i)"

definition str_sql_int :: "int sql \<Rightarrow> string" where
  "str_sql_int v = (case v of Null \<Rightarrow> ''None'' | Val i \<Rightarrow> str_int i)"

text \<open>
  The fields of a row that \<open>process_record\<close> reads first (source lines 623 to 634), in
  the order of the source; each \<open>row[k]\<close> and each integer conversion may raise.
\<close>

record row_fields =
  viaje_number :: int
  code_prod :: int
  stated_pallets :: int
  base_weight :: pynum
  origen :: int
  destino :: int

definition read_row_fields :: "library \<Rightarrow> row \<Rightarrow> int \<Rightarrow> py_error + row_fields" where
  "read_row_fields lib r index =
     py_bind (safe_int_conversion lib (row_get r col_viaje) (index + 1)) (\<lambda>viaje.
     py_bind (getitem r col_cod_prod) (\<lambda>c_prod.
     py_bind (safe_int_conversion lib c_prod 0) (\<lambda>cprod.
     py_bind (getitem r col_pallets) (\<lambda>c_pallets.
     py_bind (safe_int_conversion lib c_pallets 1) (\<lambda>quantity.
     py_bind (getitem r col_peso) (\<lambda>c_peso.
     py_bind (safe_numeric_conversion lib c_peso (NInt 0)) (\<lambda>weight.
     py_bind (getitem r col_cod_origen) (\<lambda>c_origen.
     py_bind (safe_int_conversion lib c_origen 1) (\<lambda>orig.
     py_bind (getitem r col_cod_destino) (\<lambda>c_destino.
     py_bind (safe_int_conversion lib c_destino 1) (\<lambda>dest.
     py_bind (getitem r col_operador) (\<lambda>c_operador.
       Inr \<lparr> viaje_number = viaje, code_prod = cprod, stated_pallets = quantity,
             base_weight = weight, origen = orig, destino = dest \<rparr>))))))))))))"

text \<open>
  The four records of one row (source lines 697 to 802). \<open>quantity\<close> is the value after
  the pallet override; \<open>hectolitros\<close> and \<open>bultos\<close> are the values looked up before it.
\<close>

definition header_record ::
  "string \<Rightarrow> string sql \<Rightarrow> string \<Rightarrow> int sql \<Rightarrow> int \<Rightarrow> int \<Rightarrow> dates \<Rightarrow> string \<Rightarrow> xml_record" where
  "header_record shipment_number sku_name commodity priority_numeric orig dest ds sales_order_reference =
     (blank_record ''H'')
       \<lparr> Shipment_Number := VStr shipment_number,
         Shipment_Desription := sql_str sku_name,
         Commodity := VStr commodity,
         Priority := sql_int priority_numeric,
         OriginLocation := VStr (COUNTRY_CHAR @ ''_'' @ str_int orig),
         DestinationLocation := VStr (COUNTRY_CHAR @ ''_'' @ str_int dest),
         PickupFrom := VStr (pickup_from ds),
         PickupTo := VStr (pickup_to ds),
         DeliveryFrom := VStr (delivery_from ds),
         DeliveryTo := VStr (delivery_to ds),
         ReferenceNumberType := VStr ''SALES_ORDER'',
         ReferenceNumber := VStr sales_order_reference \<rparr>"

definition detail1_record :: "int \<Rightarrow> xml_record" where
  "detail1_record cprod =
     (blank_record ''D'') \<lparr> ReferenceNumberType := VStr ''CODE_PROD'', ReferenceNumber := VInt cprod \<rparr>"

definition detail2_record :: "string \<Rightarrow> xml_record" where
  "detail2_record pallet_ret =
     (blank_record ''D'') \<lparr> ReferenceNumberType := VStr ''PALLET_RET'', ReferenceNumber := VStr pallet_ret \<rparr>"

definition detail3_record :: "int \<Rightarrow> pynum \<Rightarrow> pyfloat \<Rightarrow> int \<Rightarrow> xml_record" where
  "detail3_record quantity total_weight hectolitros bultos =
     (blank_record ''D'')
       \<lparr> Quantity := VInt quantity, Weight := pyval_of_num total_weight,
         Hectolitros := VFloat hectolitros, Bultos := VInt bultos \<rparr>"

definition pallet_ret_text :: "library \<Rightarrow> row \<Rightarrow> string" where
  "pallet_ret_text lib r =
     (case r col_pallet_ret of
        None \<Rightarrow> []
      | Some c \<Rightarrow> if pd_isna c then [] else py_str lib c)"

section \<open>ManifestPipeline: the generator and its run\<close>

text \<open>
  The state of a \<open>ShipmentXMLGenerator\<close>: the accumulated record set, the counters of
  \<open>validation_stats\<close>, and the store behind \<open>self.db\<close>.
\<close>

record generator =
  shipment_data :: "xml_record list"
  total_records :: int
  header_records :: int
  detail_records :: int
  priority_conversions :: "string \<rightharpoonup> int"
  reference_numbers_generated :: "string list"
  database_queries :: int
  errors :: "string list"
  db :: database

definition new_generator :: "database \<Rightarrow> generator" where
  "new_generator d =
     \<lparr> shipment_data = [], total_records = 0, header_records = 0, detail_records = 0,
       priority_conversions = Map.empty, reference_numbers_generated = [],
       database_queries = 0, errors = [], db = d \<rparr>"

text \<open>
  The \<open>except\<close> branch of \<open>process_record\<close>: the message is appended to the error list
  and the exception is raised again.
\<close>

definition record_error :: "int \<Rightarrow> py_error \<Rightarrow> generator \<Rightarrow> generator" where
  "record_error index e g =
     g \<lparr> errors := errors g @ [''Error registro '' @ str_int index @ '': '' @ str_error e] \<rparr>"

text \<open>
  Source lines 640 to 669: five lookups, each followed by an increment of the query
  counter, then the reference number, then the priority histogram. None of them raises.
  The count of \<open>get_sku_per_truck_count\<close> (line 660) is computed and never used; it
  cannot raise and changes nothing, so it has no counterpart here.
\<close>

record resolved =
  sku_name :: "string sql"
  priority_numeric :: "int sql"
  commodity :: string
  hectolitros :: pyfloat
  bultos :: int
  sales_order_reference :: string

definition count_priority :: "int sql \<Rightarrow> (string \<rightharpoonup> int) \<Rightarrow> (string \<rightharpoonup> int)" where
  "count_priority p conv =
     (let k = str_sql_int p;
          conv0 = (case conv k of None \<Rightarrow> conv(k \<mapsto> 0) | Some _ \<Rightarrow> conv)
      in conv0(k \<mapsto> (case conv0 k of None \<Rightarrow> 0 | Some n \<Rightarrow> n) + 1))"

definition resolve_master_data ::
  "library \<Rightarrow> moment \<Rightarrow> row_fields \<Rightarrow> generator \<Rightarrow> resolved \<times> generator" where
  "resolve_master_data lib w f g =
     (let sku = get_sku_name (db g) (code_prod f);
          prio = get_priority (db g) (origen f) (destino f);
          comm = get_commodity (db g) (code_prod f);
          hl = get_hectolitros lib (db g) (code_prod f) (stated_pallets f);
          bu = get_bultos (db g) (code_prod f) (stated_pallets f);
          (ref, seq) = get_next_reference_number (seq_fault w) (clock_hmsf w)
                         (sequence_rows (db g))
      in (\<lparr> sku_name = sku, priority_numeric = prio, commodity = comm, hectolitros = hl,
             bultos = bu, sales_order_reference = ref \<rparr>,
          g \<lparr> database_queries := database_queries g + 5,
              db := (db g) \<lparr> sequence_rows := seq \<rparr>,
              reference_numbers_generated := reference_numbers_generated g @ [ref],
              priority_conversions := count_priority prio (priority_conversions g) \<rparr>))"

text \<open>
  Source lines 680 to 802: the shipment number, the dates, the weight and the four
  records. \<open>quantity\<close> is the value after the pallet override of lines 672 and 673.
\<close>

definition record_group ::
  "library \<Rightarrow> moment \<Rightarrow> row \<Rightarrow> int \<Rightarrow> row_fields \<Rightarrow> resolved \<Rightarrow> int \<Rightarrow> xml_record list" where
  "record_group lib w r index f res quantity =
     (let shipment_number = generate_shipment_number lib r index;
          ds = calculate_dates lib (now_minute w);
          total_weight = process_weight (base_weight f) quantity
      in [header_record shipment_number (sku_name res) (commodity res) (priority_numeric res)
            (origen f) (destino f) ds (sales_order_reference res),
          detail1_record (code_prod f),
          detail2_record (pallet_ret_text lib r),
          detail3_record quantity total_weight (hectolitros res) (bultos res)])"

text \<open>
  The counters are incremented one at a time while the records are appended to the local
  list (lines 724, 750, 776, 802 and 804).
\<close>

definition emit_records :: "xml_record list \<Rightarrow> generator \<Rightarrow> generator" where
  "emit_records records g =
     (let g1 = g \<lparr> header_records := header_records g + 1 \<rparr>;
          g2 = g1 \<lparr> detail_records := detail_records g1 + 1 \<rparr>;
          g3 = g2 \<lparr> detail_records := detail_records g2 + 1 \<rparr>;
          g4 = g3 \<lparr> detail_records := detail_records g3 + 1 \<rparr>
      in g4 \<lparr> total_records := total_records g4 + int (length records) \<rparr>)"

definition process_record ::
  "library \<Rightarrow> moment \<Rightarrow> row \<Rightarrow> int \<Rightarrow> row list \<Rightarrow> generator \<Rightarrow>
     (py_error + xml_record list) \<times> generator" where
  "process_record lib w r index all_shipments g =
     (case read_row_fields lib r index of
        Inl e \<Rightarrow> (Inl e, record_error index e g)
      | Inr f \<Rightarrow>
          (let (res, g1) = resolve_master_data lib w f g;
               quantity = (if code_prod f = PALLET_PRODUCT_CODE then PALLET_QUANTITY
                           else stated_pallets f)
           in case generate_unique_route_correlative lib (viaje_number f) (origen f) (destino f)
                     all_shipments of
                Inl e \<Rightarrow> (Inl e, record_error index e g1)
              | Inr unique_route_id \<Rightarrow>
                  (let records = record_group lib w r index f res quantity
                   in (Inr records, emit_records records g1))))"

text \<open>
  \<open>process_all_data\<close>. The table is its column names and its rows, each with its index
  label. \<open>validate_uniqueness_before_processing\<close> fails only when the column of shipment
  identifiers is missing; then \<open>process_all_data\<close> raises before any row is read. The
  loop catches every exception of \<open>process_record\<close> and goes on with the next row.
  \<open>world k\<close> is the moment at which the \<open>k\<close>-th row of the table is processed, and
  \<open>all_shipments\<close> is the list of all rows (\<open>df.to_dict('records')\<close>).
\<close>

record dataframe =
  df_columns :: "string list"
  df_rows :: "(int \<times> row) list"

definition validate_uniqueness_before_processing :: "dataframe \<Rightarrow> bool" where
  "validate_uniqueness_before_processing df = (col_cod_envio \<in> set (df_columns df))"

fun process_rows ::
  "library \<Rightarrow> (nat \<Rightarrow> moment) \<Rightarrow> row list \<Rightarrow> nat \<Rightarrow> (int \<times> row) list \<Rightarrow> generator \<Rightarrow> generator" where
  "process_rows lib world all_shipments k [] g = g"
| "process_rows lib world all_shipments k ((index, r) # rest) g =
     (case process_record lib (world k) r index all_shipments g of
        (Inr records, g') \<Rightarrow>
          process_rows lib world all_shipments (Suc k) rest
            (g' \<lparr> shipment_data := shipment_data g' @ records \<rparr>)
      | (Inl e, g') \<Rightarrow> process_rows lib world all_shipments (Suc k) rest g')"

definition process_all_data ::
  "library \<Rightarrow> (nat \<Rightarrow> moment) \<Rightarrow> dataframe \<Rightarrow> generator \<Rightarrow> py_error option \<times> generator" where
  "process_all_data lib world df g =
     (if validate_uniqueness_before_processing df
      then (None, process_rows lib world (map snd (df_rows df)) 0 (df_rows df) g)
      else (Some (ValueError (''Fall'' @ [CHR 0xC3, CHR 0xB3] @ '' validaci'' @ [CHR 0xC3, CHR 0xB3] @
                                ''n de unicidad'')), g))"

text \<open>The number of records of one type in a record set, as the validation report counts them.\<close>

definition count_type :: "string \<Rightarrow> xml_record list \<Rightarrow> nat" where
  "count_type t records = length (filter (\<lambda>x. RecType x = VStr t) records)"

text \<open>
  The invariant of the run: three detail records for each header record, in the counters
  and in the accumulated set, and the header counter agrees with the set.
\<close>

definition ratio_invariant :: "generator \<Rightarrow> bool" where
  "ratio_invariant g =
     (detail_records g = 3 * header_records g \<and>
      count_type ''D'' (shipment_data g) = 3 * count_type ''H'' (shipment_data g) \<and>
      header_records g = int (count_type ''H'' (shipment_data g)))"

section \<open>PlateAvailabilityMerger: \<open>generate_validated_plates_excel\<close>\<close>

text \<open>
  \<open>str.upper\<close> and \<open>str.strip\<close> on byte strings: the 26 ASCII letters are mapped to
  upper case and every other byte is kept; \<open>py_strip\<close> (above) removes ASCII white space
  at both ends.
\<close>

definition py_upper_char :: "char \<Rightarrow> char" where
  "py_upper_char c =
     (case map_of (zip ''abcdefghijklmnopqrstuvwxyz'' ''ABCDEFGHIJKLMNOPQRSTUVWXYZ'') c of
        Some u \<Rightarrow> u
      | None \<Rightarrow> c)"

definition py_upper :: "string \<Rightarrow> string" where
  "py_upper s = map py_upper_char s"

text \<open>An entry of a plate list: the \<open>dict\<close> with the keys Origen, Placa and Reusable.\<close>

record plate_entry =
  Origen :: string
  Placa :: string
  Reusable :: int

text \<open>
  Step 1 (source lines 1325 to 1344). The manifest is read with \<open>dtype=str\<close>, so a cell is
  a text or missing (\<open>None\<close> here, whose \<open>str\<close> is \<open>"nan"\<close>). A row is the pair of its
  plant-code cell and its plate cell. The table \<open>drivers\<close> maps a plate to its group.
\<close>

definition str_text_cell :: "string option \<Rightarrow> string" where
  "str_text_cell c = (case c of None \<Rightarrow> ''nan'' | Some s \<Rightarrow> s)"

fun collect_placas_bd ::
  "(string \<rightharpoonup> string sql) \<Rightarrow> (string option \<times> string option) list \<Rightarrow> plate_entry list" where
  "collect_placas_bd drivers [] = []"
| "collect_placas_bd drivers ((codplanta, placa) # rest) =
     (case placa of
        None \<Rightarrow> collect_placas_bd drivers rest
      | Some p \<Rightarrow>
          if py_strip p = [] then collect_placas_bd drivers rest
          else if drivers p = Some (Val ''Transportadoras'')
          then \<lparr> Origen = py_strip (str_text_cell codplanta), Placa = py_upper (py_strip p),
                 Reusable = 0 \<rparr> # collect_placas_bd drivers rest
          else collect_placas_bd drivers rest)"

text \<open>Step 3 (lines 1359 to 1361): the external entries are normalised in place.\<close>

definition normalise_externa :: "plate_entry \<Rightarrow> plate_entry" where
  "normalise_externa placa_info =
     placa_info \<lparr> Placa := py_upper (Placa placa_info), Origen := py_strip (Origen placa_info) \<rparr>"

text \<open>
  Steps 4 and 5 (lines 1366 to 1381): concatenation, then the loop that keeps an entry
  when its key has not been seen. (The function returns early, without a roster, when
  the manifest has no plant-code or no plate column; the merge is what it does
  otherwise.)
\<close>

definition clave_unica :: "plate_entry \<Rightarrow> string" where
  "clave_unica placa_info = py_upper (Placa placa_info) @ ''_'' @ py_strip (Origen placa_info)"

fun dedup_loop :: "plate_entry list \<Rightarrow> plate_entry list \<Rightarrow> string set \<Rightarrow> plate_entry list" where
  "dedup_loop [] placas_unicas placas_vistas = placas_unicas"
| "dedup_loop (placa_info # rest) placas_unicas placas_vistas =
     (if clave_unica placa_info \<in> placas_vistas
      then dedup_loop rest placas_unicas placas_vistas
      else dedup_loop rest (placas_unicas @ [placa_info])
             (insert (clave_unica placa_info) placas_vistas))"

definition todas_las_placas :: "plate_entry list \<Rightarrow> plate_entry list \<Rightarrow> plate_entry list" where
  "todas_las_placas placas_bd placas_externas = placas_bd @ map normalise_externa placas_externas"

text \<open>Step 6 (line 1392): the roster is sorted by origin, then plate.\<close>

definition merge_plates :: "plate_entry list \<Rightarrow> plate_entry list \<Rightarrow> plate_entry list" where
  "merge_plates placas_bd placas_externas =
     sort_key (\<lambda>p. (Origen p, Placa p))
       (dedup_loop (todas_las_placas placas_bd placas_externas) [] {})"

section \<open>Filename date extraction\<close>

text \<open>
  The three patterns are regular expressions searched with \<open>re.search\<close>. A pattern is a
  term of \<open>rx\<close>; \<open>matches r s\<close> lists, in the order in which a backtracking matcher tries
  them (greedy repetitions try the longest alternative first), the ways \<open>r\<close> matches a
  prefix of \<open>s\<close>: the captured groups, in order, and the rest of the text. \<open>re_search\<close>
  takes the first way at the leftmost position that has one. \<open>\d\<close> and \<open>\s\<close> are the ASCII
  digits and the ASCII white space.
\<close>

datatype rx =
    Lit string
  | Digits nat nat
  | Spaces1
  | Opt char
  | Grp rx
  | Seq rx rx

definition is_digit :: "char \<Rightarrow> bool" where
  "is_digit c = (c \<in> set ''0123456789'')"

text \<open>The counts \<open>hi\<close>, \<open>hi - 1\<close>, ..., \<open>lo\<close>: a greedy repetition gives back one item at a time.\<close>

fun countdown :: "nat \<Rightarrow> nat \<Rightarrow> nat list" where
  "countdown lo 0 = (if lo = 0 then [0] else [])"
| "countdown lo (Suc hi) = (if lo \<le> Suc hi then Suc hi # countdown lo hi else [])"

fun matches :: "rx \<Rightarrow> string \<Rightarrow> (string list \<times> string) list" where
  "matches (Lit l) s = (if take (length l) s = l then [([], drop (length l) s)] else [])"
| "matches (Digits lo hi) s =
     map (\<lambda>n. ([], drop n s)) (countdown lo (min hi (length (takeWhile is_digit s))))"
| "matches Spaces1 s =
     map (\<lambda>n. ([], drop n s)) (countdown 1 (length (takeWhile py_isspace s)))"
| "matches (Opt c) s =
     (case s of
        [] \<Rightarrow> [([], [])]
      | x # t \<Rightarrow> if x = c then [([], t), ([], s)] else [([], s)])"
| "matches (Grp a) s =
     map (\<lambda>(gs, rest). (gs @ [take (length s - length rest) s], rest)) (matches a s)"
| "matches (Seq a b) s =
     concat (map (\<lambda>(g1, r1). map (\<lambda>(g2, r2). (g1 @ g2, r2)) (matches b r1)) (matches a s))"

fun re_search :: "rx \<Rightarrow> string \<Rightarrow> string list option" where
  "re_search r [] = (case matches r [] of [] \<Rightarrow> None | (gs, rest) # other \<Rightarrow> Some gs)"
| "re_search r (c # t) =
     (case matches r (c # t) of [] \<Rightarrow> re_search r t | (gs, rest) # other \<Rightarrow> Some gs)"

fun rx_seq :: "rx list \<Rightarrow> rx" where
  "rx_seq [] = Lit []"
| "rx_seq [r] = r"
| "rx_seq (r # rs) = Seq r (rx_seq rs)"

text \<open>
  The three patterns of the source: \<open>Programa_SD_(\d{1,2})_(\d{1,2})_\d{4}_\<close>, then
  \<open>Envios\s+CBs?\s+(\d{1,2})-(\d{1,2})\<close>, whose fourth letter is an accented i (the
  two bytes C3 AD), then \<open>(\d{1,2})_(\d{1,2})\<close>.
\<close>

definition pattern_sd :: rx where
  "pattern_sd =
     rx_seq [Lit ''Programa_SD_'', Grp (Digits 1 2), Lit ''_'', Grp (Digits 1 2), Lit ''_'',
             Digits 4 4, Lit ''_'']"

definition pattern_cb :: rx where
  "pattern_cb =
     rx_seq [Lit (''Env'' @ [CHR 0xC3, CHR 0xAD] @ ''os''), Spaces1, Lit ''CB'', Opt CHR ''s'',
             Spaces1, Grp (Digits 1 2), Lit ''-'', Grp (Digits 1 2)]"

definition pattern_generic :: rx where
  "pattern_generic = rx_seq [Grp (Digits 1 2), Lit ''_'', Grp (Digits 1 2)]"

text \<open>\<open>os.path.basename\<close>, \<open>str.zfill(2)\<close> and \<open>int\<close> of a text of digits.\<close>

definition basename :: "string \<Rightarrow> string" where
  "basename p = rev (takeWhile (\<lambda>c. c \<noteq> CHR ''/'') (rev p))"

definition zfill2 :: "string \<Rightarrow> string" where
  "zfill2 s = replicate (2 - length s) CHR ''0'' @ s"

definition digit_value :: "char \<Rightarrow> nat" where
  "digit_value c = (case list_index ''0123456789'' c of Some d \<Rightarrow> d | None \<Rightarrow> 0)"

definition int_of_digits :: "string \<Rightarrow> nat" where
  "int_of_digits s = foldl (\<lambda>acc c. 10 * acc + digit_value c) 0 s"

text \<open>
  The chain of patterns that both functions share (lines 475 to 503 and 1441 to 1469):
  the first pattern that matches gives the day (group 1) and the month (group 2), each
  padded to two digits; \<open>None\<close> when no pattern matches.
\<close>

definition padded_groups :: "string list \<Rightarrow> string \<times> string" where
  "padded_groups gs = (zfill2 (gs ! 0), zfill2 (gs ! 1))"

definition first_pattern_match :: "string \<Rightarrow> (string \<times> string) option" where
  "first_pattern_match file_name =
     (case re_search pattern_sd file_name of
        Some match_sd \<Rightarrow> Some (padded_groups match_sd)
      | None \<Rightarrow>
          (case re_search pattern_cb file_name of
             Some match_cb \<Rightarrow> Some (padded_groups match_cb)
           | None \<Rightarrow>
               (case re_search pattern_generic file_name of
                  Some match \<Rightarrow> Some (padded_groups match)
                | None \<Rightarrow> None)))"

text \<open>
  \<open>ShipmentXMLGenerator.extract_date_from_filename\<close> returns (month, day). The range
  check follows the chain; a day or month out of range raises \<open>ValueError\<close>, as does a
  name without a match, and the \<open>except\<close> branch returns the current month and day,
  here the parameter \<open>today\<close>.
\<close>

definition valid_day_month :: "string \<Rightarrow> string \<Rightarrow> bool" where
  "valid_day_month day month =
     (1 \<le> int_of_digits day \<and> int_of_digits day \<le> 31 \<and>
      1 \<le> int_of_digits month \<and> int_of_digits month \<le> 12)"

definition extract_date_from_filename :: "string \<times> string \<Rightarrow> string \<Rightarrow> string \<times> string" where
  "extract_date_from_filename today file_path =
     (case first_pattern_match (basename file_path) of
        None \<Rightarrow> today
      | Some (day, month) \<Rightarrow> if valid_day_month day month then (month, day) else today)"

text \<open>
  The module-level \<open>extract_date_from_input_file\<close>, used for the availability file,
  returns (month, day) of the first match without a range check, and \<open>(None, None)\<close>,
  here \<open>None\<close>, when no pattern matches.
\<close>

definition extract_date_from_input_file :: "string \<Rightarrow> (string \<times> string) option" where
  "extract_date_from_input_file input_file =
     (case first_pattern_match (basename input_file) of
        None \<Rightarrow> None
      | Some (day, month) \<Rightarrow> Some (month, day))"

text \<open>
  Two measures of a pattern, used to state what its groups capture: the number of its
  groups, and whether each of its groups is \<open>(\d{1,2})\<close>.
\<close>

fun group_count :: "rx \<Rightarrow> nat" where
  "group_count (Grp a) = Suc (group_count a)"
| "group_count (Seq a b) = group_count a + group_count b"
| "group_count r = 0"

fun digit_groups :: "rx \<Rightarrow> bool" where
  "digit_groups (Grp a) = (a = Digits 1 2)"
| "digit_groups (Seq a b) = (digit_groups a \<and> digit_groups b)"
| "digit_groups r = True"

definition one_or_two_digits :: "string \<Rightarrow> bool" where
  "one_or_two_digits g = (1 \<le> length g \<and> length g \<le> 2 \<and> list_all is_digit g)"

section \<open>Example data\<close>

text \<open>Concrete stores, rows and tables on which the theorems below are instantiated.\<close>

definition producto_5 :: dados_produtos_row where
  "producto_5 = \<lparr> nombre = Val ''AGUA'', codigo_commodity = Val ''BO_AG'',
                   hl_por_pallet = Val 2, bultos_x_pallet = Val 12 \<rparr>"

definition producto_7 :: dados_produtos_row where
  "producto_7 = \<lparr> nombre = Val ''CERVEZA'', codigo_commodity = Val ''BO_CZ'',
                   hl_por_pallet = Val (25 / 4), bultos_x_pallet = Val (5 / 2) \<rparr>"

definition producto_8 :: dados_produtos_row where
  "producto_8 = \<lparr> nombre = Val ''MALTA'', codigo_commodity = Null,
                   hl_por_pallet = Val 0, bultos_x_pallet = Val 0 \<rparr>"

definition envase_8 :: maestro_envases_row where
  "envase_8 = \<lparr> descripcion = Val ''CAJA'', hl_x_pallet = Val (3 / 2),
                 envase_bultos_x_pallet = Val 5 \<rparr>"

definition envase_1100 :: maestro_envases_row where
  "envase_1100 = \<lparr> descripcion = Val ''PALLET'', hl_x_pallet = Val (1 / 4),
                    envase_bultos_x_pallet = Val 2 \<rparr>"

definition example_store :: database where
  "example_store =
     \<lparr> dados_produtos = [5 \<mapsto> producto_5, 7 \<mapsto> producto_7, 8 \<mapsto> producto_8],
       maestro_envases = [8 \<mapsto> envase_8, 1100 \<mapsto> envase_1100],
       maestro_dtto = [''BO_10-BO_20'' \<mapsto> Val 3],
       sequence_rows = [] \<rparr>"

text \<open>
  Stand-ins for the library functions, faithful on the arguments the examples use:
  \<open>float\<close> parses three texts; \<open>float\<close> of an integer is exact below \<open>2 ^ 53\<close>, and the
  only larger argument of the examples, \<open>2 ^ 1024\<close>, is beyond the range of a double;
  the rates and products of the examples are binary fractions with at most four decimal
  places, on which conversion and product are exact and \<open>round(x, 4)\<close> changes nothing;
  every float prints as \<open>"1.0"\<close>; and the digest is a fixed text of 32 hexadecimal
  digits.
\<close>

definition example_float_mul :: "pyfloat \<Rightarrow> pyfloat \<Rightarrow> pyfloat" where
  "example_float_mul x y = (case (x, y) of (Fin a, Fin b) \<Rightarrow> Fin (a * b) | _ \<Rightarrow> NaN)"

definition example_library :: library where
  "example_library =
     \<lparr> py_float = map_of [(''7'', Fin 7), (''1100'', Fin 1100), (''inf'', PInf)],
       float_of_int = (\<lambda>i. if \<bar>i\<bar> < 2 ^ 53 then Some (Fin (of_int i)) else None),
       float_of_decimal = Fin,
       float_mul = example_float_mul,
       float_round4 = (\<lambda>x. x),
       float_repr = (\<lambda>f. ''1.0''),
       md5_hexdigest = (\<lambda>s. ''0000ffff000000000000000000000000''),
       strftime_minute = str_int \<rparr>"

definition example_moment :: moment where
  "example_moment = \<lparr> seq_fault = NoFault, clock_hmsf = ''101500123456'', now_minute = 0 \<rparr>"

definition example_world :: "nat \<Rightarrow> moment" where
  "example_world k = example_moment"

text \<open>
  Three rows. The first ships 7 pallets of product 7. The second names the pallet
  product 1100 with 7 stated pallets. The third has the text \<open>"inf"\<close> as pallet count:
  \<open>float\<close> reads it as infinity, and \<open>int\<close> of infinity raises \<open>OverflowError\<close>.
\<close>

definition manifest_row :: "cell \<Rightarrow> cell \<Rightarrow> row" where
  "manifest_row cprod pallets =
     [col_cod_envio \<mapsto> CStr ''E1'', col_cod_prod \<mapsto> cprod, col_pallets \<mapsto> pallets,
      col_peso \<mapsto> CInt 1000, col_cod_origen \<mapsto> CInt 10, col_cod_destino \<mapsto> CInt 20,
      col_operador \<mapsto> CStr ''TRANS'', col_viaje \<mapsto> CInt 3]"

definition row_beer :: row where
  "row_beer = manifest_row (CInt 7) (CInt 7)"

definition row_pallet :: row where
  "row_pallet = manifest_row (CInt 1100) (CInt 7)"

definition row_broken :: row where
  "row_broken = manifest_row (CInt 7) (CStr ''inf'')"

text \<open>A row whose weight is the integer \<open>2 ^ 1024\<close>, which \<open>float\<close> cannot convert.\<close>

definition row_heavy :: row where
  "row_heavy = row_beer(col_peso \<mapsto> CInt (2 ^ 1024))"

definition heavy_rows :: "(int \<times> row) list" where
  "heavy_rows = [(3, row_heavy), (4, row_beer)]"

definition example_columns :: "string list" where
  "example_columns = [col_cod_envio, col_cod_prod, col_pallets, col_peso, col_cod_origen,
                      col_cod_destino, col_operador, col_viaje]"

definition example_rows :: "(int \<times> row) list" where
  "example_rows = [(0, row_beer), (1, row_broken), (2, row_pallet)]"

definition example_table :: dataframe where
  "example_table = \<lparr> df_columns = example_columns, df_rows = example_rows \<rparr>"

definition fields_beer :: row_fields where
  "fields_beer = \<lparr> viaje_number = 3, code_prod = 7, stated_pallets = 7,
                    base_weight = NFloat (Fin 1000), origen = 10, destino = 20 \<rparr>"

definition fields_pallet :: row_fields where
  "fields_pallet = \<lparr> viaje_number = 3, code_prod = 1100, stated_pallets = 7,
                      base_weight = NFloat (Fin 1000), origen = 10, destino = 20 \<rparr>"

definition example_shipments :: "row list" where
  "example_shipments = [row_beer, row_broken, row_pallet]"

text \<open>
  A row that agrees with \<open>row_beer\<close> on the shipment identifier, the product code, the
  origin and the destination, and differs in pallet count and weight; a second moment
  at which the sequence storage fails; and a generator that has already run.
\<close>

definition row_beer_variant :: row where
  "row_beer_variant = row_beer(col_pallets \<mapsto> CInt 9, col_peso \<mapsto> CStr ''7'')"

definition fields_beer_variant :: row_fields where
  "fields_beer_variant = \<lparr> viaje_number = 3, code_prod = 7, stated_pallets = 9,
                            base_weight = NFloat (Fin 7), origen = 10, destino = 20 \<rparr>"

definition later_moment :: moment where
  "later_moment = \<lparr> seq_fault = SelectFails, clock_hmsf = ''235959999999'', now_minute = 1440 \<rparr>"

definition used_generator :: generator where
  "used_generator =
     process_rows example_library example_world example_shipments 0 example_rows
       (new_generator example_store)"

text \<open>
  Plate lists: the DB-qualified list names one plate twice; the external list names the
  same plate in lower case with a padded origin, and one other plate. The last entries
  of the two lists are different pairs with the same key \<open>"A_B_C"\<close>.
\<close>

definition example_placas_bd :: "plate_entry list" where
  "example_placas_bd =
     [\<lparr> Origen = ''P2'', Placa = ''ABC123'', Reusable = 0 \<rparr>,
      \<lparr> Origen = ''P2'', Placa = ''ABC123'', Reusable = 0 \<rparr>,
      \<lparr> Origen = ''C'', Placa = ''A_B'', Reusable = 0 \<rparr>]"

definition example_placas_externas :: "plate_entry list" where
  "example_placas_externas =
     [\<lparr> Origen = '' P2 '', Placa = ''abc123'', Reusable = 0 \<rparr>,
      \<lparr> Origen = ''P1'', Placa = ''xyz9'', Reusable = 0 \<rparr>,
      \<lparr> Origen = ''B_C'', Placa = ''a'', Reusable = 0 \<rparr>]"

text \<open>File names: the three of the specification, and two with a first match out of range.\<close>

definition name_sd :: string where
  "name_sd = ''Programa_SD_5_7_2025_x.xlsx''"

definition name_cb :: string where
  "name_cb = ''uploads/Env'' @ [CHR 0xC3, CHR 0xAD] @ ''os CBs 19-06.xlsx''"

definition name_beer :: string where
  "name_beer = ''Programa Beer_28_04.xlsm''"

definition name_cb_out_of_range :: string where
  "name_cb_out_of_range = ''Env'' @ [CHR 0xC3, CHR 0xAD] @ ''os CBs 45-13 Beer_28_04.xlsm''"

definition name_generic_out_of_range :: string where
  "name_generic_out_of_range = ''Programa Beer_45_13.xlsm''"

section \<open>Evaluation of decimal printing\<close>

lemma str_nat_numeral:
  "str_nat (numeral k) =
     (if (numeral k :: nat) < 10 then [digit_char (numeral k)]
      else str_nat (numeral k div 10) @ [digit_char (numeral k mod 10)])"
  by (rule str_nat.simps)

lemma str_nat_0: "str_nat 0 = ''0''"
  by (simp add: str_nat.simps digit_char_def)

lemma str_nat_1: "str_nat (Suc 0) = ''1''"
  by (simp add: str_nat.simps digit_char_def)

lemmas str_eval = str_int_def str_nat_numeral str_nat_0 str_nat_1 digit_char_def

lemma floor_rat_numeral_div:
  "\<lfloor>(numeral a :: rat) / numeral b\<rfloor> = numeral a div numeral b"
  using floor_divide_of_int_eq [of "numeral a" "numeral b", where ?'a = rat] by simp

lemma floor_rat_neg_numeral_div:
  "\<lfloor>- ((numeral a :: rat) / numeral b)\<rfloor> = - numeral a div numeral b"
  using floor_divide_of_int_eq [of "- numeral a" "numeral b", where ?'a = rat] by simp

lemma floor_rat_one_div:
  "\<lfloor>(1 :: rat) / numeral b\<rfloor> = 1 div numeral b"
  using floor_divide_of_int_eq [of 1 "numeral b", where ?'a = rat] by simp

lemmas rat_eval = py_trunc_def floor_rat_numeral_div floor_rat_neg_numeral_div floor_rat_one_div

section \<open>SequenceAllocator\<close>

lemma stored_number_nonempty: "stored_number seq = Some n \<Longrightarrow> seq \<noteq> []"
  by (auto simp: stored_number_def)

lemma stored_number_update_last:
  "seq \<noteq> [] \<Longrightarrow> n \<noteq> 0 \<Longrightarrow> stored_number (update_last seq n) = Some n"
  by (simp add: stored_number_def update_last_def)

lemma get_next_stored:
  "stored_number seq = Some n \<Longrightarrow>
   get_next_reference_number NoFault ts seq = (str_int (n + 1), update_last seq (n + 1))"
  by (simp add: get_next_reference_number_def)

lemma get_next_empty:
  "get_next_reference_number NoFault ts [] = (''11111'', [Val 11111])"
  by (simp add: get_next_reference_number_def stored_number_def update_last_def str_eval)

lemma upt_Suc_shift: "[0..<Suc k] = 0 # map Suc [0..<k]"
  by (simp add: upt_conv_Cons map_Suc_upt del: upt_Suc)

text \<open>
  From a store whose last row holds a positive number \<open>n\<close>, \<open>k\<close> successful calls return
  \<open>n + 1\<close>, \<open>n + 2\<close>, and so on: each call returns the stored value plus one and stores it.
\<close>

lemma allocate_from_stored:
  "stored_number seq = Some n \<Longrightarrow> 0 \<le> n \<Longrightarrow>
   fst (allocate k ts seq) = map (\<lambda>i. str_int (n + 1 + int i)) [0..<k]"
proof (induction k arbitrary: seq n)
  case 0
  then show ?case by simp
next
  case (Suc k)
  have ne: "seq \<noteq> []"
    using Suc.prems(1) by (rule stored_number_nonempty)
  have st: "stored_number (update_last seq (n + 1)) = Some (n + 1)"
    using ne Suc.prems(2) by (simp add: stored_number_update_last)
  have ih: "fst (allocate k ts (update_last seq (n + 1))) =
            map (\<lambda>i. str_int (n + 1 + 1 + int i)) [0..<k]"
    using Suc.IH [OF st] Suc.prems(2) by simp
  show ?case
    using ih
    by (simp add: upt_Suc_shift get_next_stored [OF Suc.prems(1)] split_beta Let_def comp_def
        add.assoc del: upt_Suc)
qed

lemma get_next_from_empty_store:
  "snd (get_next_reference_number fault ts []) = [] \<or>
   snd (get_next_reference_number fault ts []) = [Val 11111]"
  by (cases fault)
     (simp_all add: get_next_reference_number_def stored_number_def update_last_def)

lemma get_next_from_single:
  "n \<noteq> 0 \<Longrightarrow>
   snd (get_next_reference_number fault ts [Val n]) = [Val n] \<or>
   snd (get_next_reference_number fault ts [Val n]) = [Val (n + 1)]"
  by (cases fault)
     (simp_all add: get_next_reference_number_def stored_number_def update_last_def)

text \<open>
  Whatever failures the calls meet, the table that started without rows is either still
  without rows or holds one row with a number from 11111 upwards.
\<close>

lemma run_calls_store:
  "seq = [] \<or> (\<exists>n. 11111 \<le> n \<and> seq = [Val n]) \<Longrightarrow>
   run_calls calls seq = [] \<or> (\<exists>n. 11111 \<le> n \<and> run_calls calls seq = [Val n])"
proof (induction calls arbitrary: seq)
  case Nil
  then show ?case by simp
next
  case (Cons call calls)
  obtain fault ts where call: "call = (fault, ts)"
    by (cases call)
  have "snd (get_next_reference_number fault ts seq) = [] \<or>
        (\<exists>n. 11111 \<le> n \<and> snd (get_next_reference_number fault ts seq) = [Val n])"
  proof (cases "seq = []")
    case True
    then show ?thesis
      using get_next_from_empty_store [of fault ts] by auto
  next
    case False
    then obtain n where n: "11111 \<le> n" "seq = [Val n]"
      using Cons.prems by blast
    then have "n \<noteq> 0"
      by simp
    then show ?thesis
      using get_next_from_single [of n fault ts] n by fastforce
  qed
  then show ?case
    using Cons.IH by (simp add: call)
qed

text \<open>
  C3. Starting from a counter table without rows, three calls in sequence that meet no
  storage failure return "11111", "11112" and "11113": the first call finds no row,
  inserts the seed 11111 and returns it, and every later call returns the stored value
  plus one; the \<open>i\<close>-th of \<open>k\<close> such calls (counting from 0) returns \<open>11111 + i\<close>. More
  generally, after any series of calls on that table, failed ones included, a successful
  call either finds no row, stores the seed and returns it, or finds the stored number
  \<open>n\<close>, returns \<open>n + 1\<close> and stores it.
\<close>

theorem sequence_allocator_from_empty:
  "get_next_reference_number NoFault t1 [] = (''11111'', [Val 11111]) \<and>
   get_next_reference_number NoFault t2 [Val 11111] = (''11112'', [Val 11112]) \<and>
   get_next_reference_number NoFault t3 [Val 11112] = (''11113'', [Val 11113]) \<and>
   fst (allocate k ts []) = map (\<lambda>i. str_int (11111 + int i)) [0..<k] \<and>
   ((run_calls calls [] = [] \<and>
     get_next_reference_number NoFault ts (run_calls calls []) = (''11111'', [Val 11111])) \<or>
    (\<exists>n. 11111 \<le> n \<and> run_calls calls [] = [Val n] \<and>
         get_next_reference_number NoFault ts (run_calls calls []) =
           (str_int (n + 1), [Val (n + 1)])))"
proof -
  have a: "get_next_reference_number NoFault t1 [] = (''11111'', [Val 11111])"
    by (rule get_next_empty)
  have b: "get_next_reference_number NoFault t2 [Val 11111] = (''11112'', [Val 11112])"
    by (simp add: get_next_reference_number_def stored_number_def update_last_def str_eval)
  have c: "get_next_reference_number NoFault t3 [Val 11112] = (''11113'', [Val 11113])"
    by (simp add: get_next_reference_number_def stored_number_def update_last_def str_eval)
  have d: "fst (allocate k ts []) = map (\<lambda>i. str_int (11111 + int i)) [0..<k]"
  proof (cases k)
    case 0
    then show ?thesis by simp
  next
    case (Suc j)
    have st: "stored_number [Val 11111] = Some 11111"
      by (simp add: stored_number_def)
    have rest: "fst (allocate j ts [Val 11111]) = map (\<lambda>i. str_int (11111 + 1 + int i)) [0..<j]"
      using allocate_from_stored [OF st] by simp
    have seed: "str_int 11111 = ''11111''"
      by (simp add: str_eval)
    show ?thesis
      unfolding Suc using rest seed
      by (simp add: upt_Suc_shift get_next_empty split_beta Let_def comp_def add.assoc
          del: upt_Suc)
  qed
  have e: "(run_calls calls [] = [] \<and>
     get_next_reference_number NoFault ts (run_calls calls []) = (''11111'', [Val 11111])) \<or>
    (\<exists>n. 11111 \<le> n \<and> run_calls calls [] = [Val n] \<and>
         get_next_reference_number NoFault ts (run_calls calls []) =
           (str_int (n + 1), [Val (n + 1)]))"
  proof (cases "run_calls calls [] = []")
    case True
    then show ?thesis
      by (simp add: get_next_empty)
  next
    case False
    then obtain n where n: "11111 \<le> n" "run_calls calls [] = [Val n]"
      using run_calls_store [of "[]" calls] by auto
    then have "stored_number (run_calls calls []) = Some n"
      by (simp add: stored_number_def)
    then have "get_next_reference_number NoFault ts (run_calls calls []) =
        (str_int (n + 1), [Val (n + 1)])"
      using n(2) by (simp add: get_next_stored update_last_def)
    then show ?thesis
      using n by blast
  qed
  show ?thesis
    using a b c d e by blast
qed

section \<open>MasterDataResolver\<close>

text \<open>
  C4. Priority resolution is symmetric when one directional key is stored: if the key of
  (A, B) is in the table and the key of (B, A) is not, then resolving (A, B) and resolving
  (B, A) both return the value stored under that key; if neither key is in the table,
  both return 1. (The case where only the key of (B, A) is stored is the first case with
  A and B exchanged.)
\<close>

theorem get_priority_symmetric:
  "(maestro_dtto d (ruta a b) = Some v \<and> maestro_dtto d (ruta b a) = None \<longrightarrow>
      get_priority d a b = v \<and> get_priority d b a = v) \<and>
   (maestro_dtto d (ruta a b) = None \<and> maestro_dtto d (ruta b a) = None \<longrightarrow>
      get_priority d a b = Val 1 \<and> get_priority d b a = Val 1)"
  by (simp add: get_priority_def)

lemma ruta_10_20: "ruta 10 20 = ''BO_10-BO_20''"
  by (simp add: ruta_def str_eval)

lemma ruta_20_10: "ruta 20 10 = ''BO_20-BO_10''"
  by (simp add: ruta_def str_eval)

lemma ruta_30_40: "ruta 30 40 = ''BO_30-BO_40''"
  by (simp add: ruta_def str_eval)

lemma ruta_40_30: "ruta 40 30 = ''BO_40-BO_30''"
  by (simp add: ruta_def str_eval)

theorem get_priority_symmetric_witness:
  "maestro_dtto example_store (ruta 10 20) = Some (Val 3) \<and>
   maestro_dtto example_store (ruta 20 10) = None \<and>
   get_priority example_store 10 20 = Val 3 \<and> get_priority example_store 20 10 = Val 3 \<and>
   maestro_dtto example_store (ruta 30 40) = None \<and>
   maestro_dtto example_store (ruta 40 30) = None \<and>
   get_priority example_store 30 40 = Val 1 \<and> get_priority example_store 40 30 = Val 1"
  using get_priority_symmetric [of example_store 10 20 "Val 3"]
        get_priority_symmetric [of example_store 30 40]
  by (simp add: example_store_def ruta_10_20 ruta_20_10 ruta_30_40 ruta_40_30)

text \<open>
  C7, as stated, fails on the code: a stored rate of zero counts as no rate. Product 8
  has the rate 0 in the primary table and the rate 5 in the secondary table; for 3
  pallets \<open>get_bultos\<close> returns 5 * 3 = 15, where the primary rate times the pallet count
  is 0.
\<close>

theorem zero_rate_counts_as_absent_counterexample:
  "map_option bultos_x_pallet (dados_produtos example_store 8) = Some (Val 0) \<and>
   map_option envase_bultos_x_pallet (maestro_envases example_store 8) = Some (Val 5) \<and>
   get_bultos example_store 8 3 = 15 \<and>
   py_trunc (0 * of_int 3) = 0"
  by (simp add: get_bultos_def example_store_def producto_8_def envase_8_def truthy_rate_def
      rat_eval)

text \<open>
  For a rate with a fractional part \<open>get_bultos\<close> truncates the rate before it
  multiplies, where its docstring gives the product of rate and pallet count: with the
  rate 5/2 and 3 pallets it returns 2 * 3 = 6, and the product 15/2 truncated is 7. The
  amended claim below says nothing about such rates.
\<close>

lemma get_bultos_fractional_rate:
  "map_option bultos_x_pallet (dados_produtos example_store 7) = Some (Val (5 / 2)) \<and>
   get_bultos example_store 7 3 = 6 \<and>
   py_trunc (5 / 2 * of_int 3) = 7"
  by (simp add: get_bultos_def example_store_def producto_7_def truthy_rate_def rat_eval)

lemma truthy_rate_None:
  "truthy_rate x = None \<longleftrightarrow> x = None \<or> x = Some Null \<or> x = Some (Val 0)"
  by (auto simp: truthy_rate_def split: option.splits sql.splits)

lemma truthy_rate_Some: "r \<noteq> 0 \<Longrightarrow> truthy_rate (Some (Val r)) = Some r"
  by (simp add: truthy_rate_def)

lemma py_trunc_of_int: "py_trunc (of_int k) = k"
  by (simp add: py_trunc_def)

text \<open>
  C7, amended. A table supplies a rate when it has a row for the product whose rate is
  neither NULL nor zero. If the primary table supplies a rate, hectoliters is
  \<open>round(float(rate) * float(pallet count), 4)\<close> for a pallet count that converts to a
  float, and for a whole-number rate bultos is rate * pallet count (truncation changes
  nothing there). If the primary table supplies no rate and the secondary table does,
  the same arithmetic is applied to the secondary rate. If neither supplies a rate the
  result is 0. The float operations are those of the library.
\<close>

theorem rate_resolution:
  "(dados_produtos d c = Some row1 \<and> hl_por_pallet row1 = Val r \<and> r \<noteq> 0 \<and>
    float_of_int lib p = Some fp \<longrightarrow>
      get_hectolitros lib d c p = float_round4 lib (float_mul lib (float_of_decimal lib r) fp)) \<and>
   (dados_produtos d c = Some row1 \<and> bultos_x_pallet row1 = Val (of_int k) \<and> k \<noteq> 0 \<longrightarrow>
      get_bultos d c p = k * p \<and> get_bultos d c p = py_trunc (of_int k * of_int p)) \<and>
   (truthy_rate (map_option hl_por_pallet (dados_produtos d c)) = None \<and>
    maestro_envases d c = Some row2 \<and> hl_x_pallet row2 = Val r \<and> r \<noteq> 0 \<and>
    float_of_int lib p = Some fp \<longrightarrow>
      get_hectolitros lib d c p = float_round4 lib (float_mul lib (float_of_decimal lib r) fp)) \<and>
   (truthy_rate (map_option bultos_x_pallet (dados_produtos d c)) = None \<and>
    maestro_envases d c = Some row2 \<and> envase_bultos_x_pallet row2 = Val (of_int k) \<and>
    k \<noteq> 0 \<longrightarrow>
      get_bultos d c p = k * p \<and> get_bultos d c p = py_trunc (of_int k * of_int p)) \<and>
   (truthy_rate (map_option hl_por_pallet (dados_produtos d c)) = None \<and>
    truthy_rate (map_option hl_x_pallet (maestro_envases d c)) = None \<longrightarrow>
      get_hectolitros lib d c p = Fin 0) \<and>
   (truthy_rate (map_option bultos_x_pallet (dados_produtos d c)) = None \<and>
    truthy_rate (map_option envase_bultos_x_pallet (maestro_envases d c)) = None \<longrightarrow>
      get_bultos d c p = 0) \<and>
   (truthy_rate x = None \<longleftrightarrow> x = None \<or> x = Some Null \<or> x = Some (Val 0))"
proof -
  have whole: "py_trunc (of_int k * of_int p) = k * p"
    using py_trunc_of_int [of "k * p"] by simp
  have c1: "dados_produtos d c = Some row1 \<and> hl_por_pallet row1 = Val r \<and> r \<noteq> 0 \<and>
    float_of_int lib p = Some fp \<longrightarrow>
      get_hectolitros lib d c p = float_round4 lib (float_mul lib (float_of_decimal lib r) fp)"
    by (simp add: get_hectolitros_def hectolitros_of_rate_def truthy_rate_def)
  have c2: "dados_produtos d c = Some row1 \<and> bultos_x_pallet row1 = Val (of_int k) \<and> k \<noteq> 0 \<longrightarrow>
      get_bultos d c p = k * p \<and> get_bultos d c p = py_trunc (of_int k * of_int p)"
    by (simp add: get_bultos_def truthy_rate_def whole py_trunc_of_int)
  have c3: "truthy_rate (map_option hl_por_pallet (dados_produtos d c)) = None \<and>
    maestro_envases d c = Some row2 \<and> hl_x_pallet row2 = Val r \<and> r \<noteq> 0 \<and>
    float_of_int lib p = Some fp \<longrightarrow>
      get_hectolitros lib d c p = float_round4 lib (float_mul lib (float_of_decimal lib r) fp)"
    by (simp add: get_hectolitros_def hectolitros_of_rate_def truthy_rate_Some)
  have c4: "truthy_rate (map_option bultos_x_pallet (dados_produtos d c)) = None \<and>
    maestro_envases d c = Some row2 \<and> envase_bultos_x_pallet row2 = Val (of_int k) \<and>
    k \<noteq> 0 \<longrightarrow>
      get_bultos d c p = k * p \<and> get_bultos d c p = py_trunc (of_int k * of_int p)"
    by (simp add: get_bultos_def truthy_rate_Some whole py_trunc_of_int)
  have c5: "truthy_rate (map_option hl_por_pallet (dados_produtos d c)) = None \<and>
    truthy_rate (map_option hl_x_pallet (maestro_envases d c)) = None \<longrightarrow>
      get_hectolitros lib d c p = Fin 0"
    by (simp add: get_hectolitros_def)
  have c6: "truthy_rate (map_option bultos_x_pallet (dados_produtos d c)) = None \<and>
    truthy_rate (map_option envase_bultos_x_pallet (maestro_envases d c)) = None \<longrightarrow>
      get_bultos d c p = 0"
    by (simp add: get_bultos_def)
  show ?thesis
    using c1 c2 c3 c4 c5 c6 truthy_rate_None [of x] by blast
qed

lemma example_float_of_int_3: "float_of_int example_library 3 = Some (Fin 3)"
  by (simp add: example_library_def)

theorem rate_resolution_witness:
  "get_hectolitros example_library example_store 7 3 = Fin (75 / 4) \<and>
   get_bultos example_store 5 3 = 36 \<and>
   get_hectolitros example_library example_store 8 3 = Fin (9 / 2) \<and>
   get_bultos example_store 8 3 = 15 \<and>
   get_hectolitros example_library example_store 9 3 = Fin 0 \<and>
   get_bultos example_store 9 3 = 0"
proof -
  have p5: "dados_produtos example_store 5 = Some producto_5"
    and p7: "dados_produtos example_store 7 = Some producto_7"
    and p8: "dados_produtos example_store 8 = Some producto_8"
    and p9: "dados_produtos example_store 9 = None"
    and e8: "maestro_envases example_store 8 = Some envase_8"
    and e9: "maestro_envases example_store 9 = None"
    by (simp_all add: example_store_def)
  have ops: "float_round4 example_library (float_mul example_library
               (float_of_decimal example_library q) (Fin 3)) = Fin (q * 3)" for q
    by (simp add: example_library_def example_float_mul_def)
  have a: "get_hectolitros example_library example_store 7 3 = Fin (25 / 4 * 3)"
    using rate_resolution [of example_store 7 producto_7 "25 / 4" example_library 3 "Fin 3"]
      p7 example_float_of_int_3
    by (simp add: producto_7_def ops)
  have b: "get_bultos example_store 5 3 = 12 * 3"
    using rate_resolution [of example_store 5 producto_5 _ _ 3 _ 12] p5
    by (simp add: producto_5_def)
  have c: "get_hectolitros example_library example_store 8 3 = Fin (3 / 2 * 3)"
    using rate_resolution [of example_store 8 _ "3 / 2" example_library 3 "Fin 3" _ envase_8]
      p8 e8 example_float_of_int_3
    by (simp add: producto_8_def envase_8_def truthy_rate_def ops)
  have d: "get_bultos example_store 8 3 = 5 * 3"
    using rate_resolution [of example_store 8 _ _ _ 3 _ 5 envase_8] p8 e8
    by (simp add: producto_8_def envase_8_def truthy_rate_def)
  have e: "get_hectolitros example_library example_store 9 3 = Fin 0 \<and>
           get_bultos example_store 9 3 = 0"
    using rate_resolution [of example_store 9 _ _ example_library 3] p9 e9
    by (simp add: truthy_rate_def)
  show ?thesis
    using a b c d e by simp
qed

section \<open>RecordExpander and ManifestPipeline\<close>

lemmas col_defs = col_cod_envio_def col_cod_prod_def col_cod_origen_def col_cod_destino_def
  col_operador_def col_viaje_def col_pallets_def col_peso_def col_pallet_ret_def

lemma resolve_master_data_keeps:
  "resolve_master_data lib w f g = (res, g1) \<Longrightarrow>
   shipment_data g1 = shipment_data g \<and> errors g1 = errors g \<and>
   header_records g1 = header_records g \<and> detail_records g1 = detail_records g \<and>
   total_records g1 = total_records g"
  by (auto simp: resolve_master_data_def Let_def split: prod.splits)

lemma resolve_master_data_values:
  "resolve_master_data lib w f g = (res, g1) \<Longrightarrow>
   hectolitros res = get_hectolitros lib (db g) (code_prod f) (stated_pallets f) \<and>
   bultos res = get_bultos (db g) (code_prod f) (stated_pallets f)"
  by (auto simp: resolve_master_data_def Let_def split: prod.splits)

lemma emit_records_counters:
  "header_records (emit_records records g) = header_records g + 1 \<and>
   detail_records (emit_records records g) = detail_records g + 3 \<and>
   total_records (emit_records records g) = total_records g + int (length records) \<and>
   shipment_data (emit_records records g) = shipment_data g \<and>
   errors (emit_records records g) = errors g"
  by (simp add: emit_records_def Let_def)

lemma record_error_keeps:
  "shipment_data (record_error index e g) = shipment_data g \<and>
   header_records (record_error index e g) = header_records g \<and>
   detail_records (record_error index e g) = detail_records g \<and>
   total_records (record_error index e g) = total_records g \<and>
   errors (record_error index e g) =
     errors g @ [''Error registro '' @ str_int index @ '': '' @ str_error e]"
  by (simp add: record_error_def)

lemma process_record_Inl:
  assumes "process_record lib w r index all_shipments g = (Inl e, g')"
  shows "shipment_data g' = shipment_data g \<and>
         header_records g' = header_records g \<and>
         detail_records g' = detail_records g \<and>
         total_records g' = total_records g \<and>
         errors g' = errors g @ [''Error registro '' @ str_int index @ '': '' @ str_error e]"
proof (cases "read_row_fields lib r index")
  case (Inl e1)
  with assms have "e = e1" and "g' = record_error index e1 g"
    by (auto simp: process_record_def)
  then show ?thesis
    by (simp add: record_error_keeps)
next
  case (Inr f)
  obtain res g1 where rs: "resolve_master_data lib w f g = (res, g1)"
    by (cases "resolve_master_data lib w f g")
  show ?thesis
  proof (cases "generate_unique_route_correlative lib (viaje_number f) (origen f) (destino f) all_shipments")
    case (Inl e2)
    with assms Inr rs have "e = e2" and "g' = record_error index e2 g1"
      by (auto simp: process_record_def)
    then show ?thesis
      using resolve_master_data_keeps [OF rs] by (simp add: record_error_keeps)
  next
    case (Inr u)
    with assms \<open>read_row_fields lib r index = Inr f\<close> rs show ?thesis
      by (simp add: process_record_def Let_def)
  qed
qed

lemma process_record_Inr:
  assumes "process_record lib w r index all_shipments g = (Inr records, g')"
  shows "\<exists>f res g1. read_row_fields lib r index = Inr f \<and>
           resolve_master_data lib w f g = (res, g1) \<and>
           records = record_group lib w r index f res
                       (if code_prod f = PALLET_PRODUCT_CODE then PALLET_QUANTITY
                        else stated_pallets f) \<and>
           g' = emit_records records g1"
proof (cases "read_row_fields lib r index")
  case (Inl e1)
  with assms show ?thesis
    by (simp add: process_record_def)
next
  case (Inr f)
  obtain res g1 where rs: "resolve_master_data lib w f g = (res, g1)"
    by (cases "resolve_master_data lib w f g")
  show ?thesis
  proof (cases "generate_unique_route_correlative lib (viaje_number f) (origen f) (destino f) all_shipments")
    case (Inl e2)
    with assms Inr rs show ?thesis
      by (simp add: process_record_def)
  next
    case (Inr u)
    with assms \<open>read_row_fields lib r index = Inr f\<close> rs show ?thesis
      by (auto simp: process_record_def Let_def)
  qed
qed

lemma record_group_shape:
  "\<exists>h d1 d2 d3. record_group lib w r index f res q = [h, d1, d2, d3] \<and>
     RecType h = VStr ''H'' \<and> RecType d1 = VStr ''D'' \<and> RecType d2 = VStr ''D'' \<and>
     RecType d3 = VStr ''D''"
  by (simp add: record_group_def Let_def header_record_def detail1_record_def
      detail2_record_def detail3_record_def blank_record_def)

lemma count_type_record_group:
  "count_type ''H'' (record_group lib w r index f res q) = 1 \<and>
   count_type ''D'' (record_group lib w r index f res q) = 3"
  by (simp add: count_type_def record_group_def Let_def header_record_def detail1_record_def
      detail2_record_def detail3_record_def blank_record_def)

lemma process_record_raises_independent:
  "isl (fst (process_record lib w r index all_shipments g)) =
   isl (fst (process_record lib w0 r index all_shipments g0))"
  by (simp add: process_record_def Let_def split_beta split: sum.splits)

lemma py_bind_Inr: "py_bind m f = Inr y \<Longrightarrow> \<exists>v. m = Inr v \<and> f v = Inr y"
  by (cases m) (simp_all add: py_bind_def)

lemma getitem_Inr: "getitem r k = Inr c \<Longrightarrow> r k = Some c"
  by (simp add: getitem_def split: option.splits)

lemma read_row_fields_Inr:
  assumes "read_row_fields lib r index = Inr f"
  shows "\<exists>c_prod c_pallets c_peso.
           r col_cod_prod = Some c_prod \<and> safe_int_conversion lib c_prod 0 = Inr (code_prod f) \<and>
           r col_pallets = Some c_pallets \<and>
           safe_int_conversion lib c_pallets 1 = Inr (stated_pallets f) \<and>
           r col_peso = Some c_peso \<and>
           safe_numeric_conversion lib c_peso (NInt 0) = Inr (base_weight f)"
  using assms unfolding read_row_fields_def
  by (auto dest!: py_bind_Inr getitem_Inr)

lemma count_type_append:
  "count_type t (xs @ ys) = count_type t xs + count_type t ys"
  by (simp add: count_type_def)

lemma process_record_step_invariant:
  assumes inv: "ratio_invariant g"
    and pr: "process_record lib w r index all_shipments g = (Inr records, g')"
  shows "ratio_invariant (g' \<lparr> shipment_data := shipment_data g' @ records \<rparr>)"
proof -
  obtain f res g1 where rs: "resolve_master_data lib w f g = (res, g1)"
    and recs: "records = record_group lib w r index f res
                 (if code_prod f = PALLET_PRODUCT_CODE then PALLET_QUANTITY else stated_pallets f)"
    and g': "g' = emit_records records g1"
    using process_record_Inr [OF pr] by blast
  have k: "shipment_data g1 = shipment_data g" "header_records g1 = header_records g"
    "detail_records g1 = detail_records g"
    using resolve_master_data_keeps [OF rs] by simp_all
  have c: "count_type ''H'' records = 1" "count_type ''D'' records = 3"
    using count_type_record_group unfolding recs by blast+
  show ?thesis
    using inv k c
    by (simp add: ratio_invariant_def g' emit_records_counters count_type_append)
qed

lemma process_record_fail_invariant:
  assumes inv: "ratio_invariant g"
    and pr: "process_record lib w r index all_shipments g = (Inl e, g')"
  shows "ratio_invariant g'"
  using inv process_record_Inl [OF pr] by (simp add: ratio_invariant_def)

lemma process_rows_invariant:
  "ratio_invariant g \<Longrightarrow> ratio_invariant (process_rows lib world all_shipments k rows g)"
proof (induction rows arbitrary: k g)
  case Nil
  then show ?case by simp
next
  case (Cons x rows)
  obtain index r where x: "x = (index, r)"
    by (cases x)
  obtain res g' where pr: "process_record lib (world k) r index all_shipments g = (res, g')"
    by (cases "process_record lib (world k) r index all_shipments g")
  show ?case
  proof (cases res)
    case (Inl e)
    have "ratio_invariant g'"
      using process_record_fail_invariant [OF Cons.prems] pr Inl by simp
    then show ?thesis
      using Cons.IH pr Inl by (simp add: x)
  next
    case (Inr records)
    have "ratio_invariant (g' \<lparr> shipment_data := shipment_data g' @ records \<rparr>)"
      using process_record_step_invariant [OF Cons.prems] pr Inr by simp
    then show ?thesis
      using Cons.IH pr Inr by (simp add: x)
  qed
qed

lemma ratio_invariant_new: "ratio_invariant (new_generator d)"
  by (simp add: ratio_invariant_def new_generator_def count_type_def)

text \<open>
  C1. After a run of the pipeline on any manifest (empty or not) from a fresh generator,
  the counters satisfy detail_records = 3 * header_records and the accumulated record set
  holds three times as many records of type D as of type H; the header counter is the
  number of H records in the set. A row that fails leaves neither records nor counter
  increments behind, and a row that succeeds adds one header and three details.
\<close>

theorem detail_count_three_times_header_count:
  "detail_records (snd (process_all_data lib world df (new_generator d))) =
     3 * header_records (snd (process_all_data lib world df (new_generator d))) \<and>
   count_type ''D'' (shipment_data (snd (process_all_data lib world df (new_generator d)))) =
     3 * count_type ''H'' (shipment_data (snd (process_all_data lib world df (new_generator d)))) \<and>
   header_records (snd (process_all_data lib world df (new_generator d))) =
     int (count_type ''H'' (shipment_data (snd (process_all_data lib world df (new_generator d)))))"
proof -
  have "ratio_invariant (snd (process_all_data lib world df (new_generator d)))"
    by (simp add: process_all_data_def process_rows_invariant ratio_invariant_new)
  then show ?thesis
    by (simp add: ratio_invariant_def)
qed

lemma length_record_group: "length (record_group lib w r index f res q) = 4"
  by (simp add: record_group_def Let_def)

lemma process_record_Inr_keeps:
  assumes pr: "process_record lib w r index all_shipments g = (Inr records, g')"
  shows "length records = 4 \<and> errors g' = errors g \<and> shipment_data g' = shipment_data g"
proof -
  obtain f res g1 where rs: "resolve_master_data lib w f g = (res, g1)"
    and recs: "records = record_group lib w r index f res
                 (if code_prod f = PALLET_PRODUCT_CODE then PALLET_QUANTITY else stated_pallets f)"
    and g': "g' = emit_records records g1"
    using process_record_Inr [OF pr] by blast
  have "length records = 4"
    unfolding recs by (rule length_record_group)
  then show ?thesis
    using resolve_master_data_keeps [OF rs] by (simp add: g' emit_records_counters)
qed

lemma process_rows_counts:
  "length (errors (process_rows lib world all_shipments k rows g)) =
     length (errors g) +
     length (filter (\<lambda>(index, r). isl (fst (process_record lib w0 r index all_shipments g0))) rows) \<and>
   length (shipment_data (process_rows lib world all_shipments k rows g)) =
     length (shipment_data g) +
     4 * length (filter (\<lambda>(index, r). \<not> isl (fst (process_record lib w0 r index all_shipments g0))) rows)"
proof (induction rows arbitrary: k g)
  case Nil
  then show ?case by simp
next
  case (Cons x rows)
  obtain index r where x: "x = (index, r)"
    by (cases x)
  obtain res g' where pr: "process_record lib (world k) r index all_shipments g = (res, g')"
    by (cases "process_record lib (world k) r index all_shipments g")
  have ind: "isl (fst (process_record lib w0 r index all_shipments g0)) = isl res"
    using process_record_raises_independent [of lib w0 r index all_shipments g0 "world k" g] pr
    by simp
  show ?case
  proof (cases res)
    case (Inl e)
    have "length (errors g') = length (errors g) + 1" "shipment_data g' = shipment_data g"
      using process_record_Inl [of lib "world k" r index all_shipments g e g'] pr Inl by simp_all
    then show ?thesis
      using Cons.IH [of "Suc k" g'] pr Inl ind by (simp add: x)
  next
    case (Inr records)
    have "length records = 4" "errors g' = errors g" "shipment_data g' = shipment_data g"
      using process_record_Inr_keeps [of lib "world k" r index all_shipments g records g'] pr Inr
      by simp_all
    then show ?thesis
      using Cons.IH [of "Suc k" "g' \<lparr> shipment_data := shipment_data g' @ records \<rparr>"] pr Inr ind
      by (simp add: x)
  qed
qed

text \<open>
  C9. When processing a row raises, the pipeline appends one entry to the error list,
  adds no record of that row to the accumulated set, and goes on with the rows that
  follow. Over a whole run the error list grows by the number of rows that raise and the
  record set by four records for every other row, so no failure ends the run. Whether a
  row raises does not depend on the state or on the moment of the call. Among the rows
  that raise are those whose weight is an integer beyond the range of a double.
\<close>

theorem failed_row_is_skipped:
  "(process_record lib (world k) r index all_shipments g = (Inl e, g') \<longrightarrow>
      errors g' = errors g @ [''Error registro '' @ str_int index @ '': '' @ str_error e] \<and>
      shipment_data g' = shipment_data g \<and>
      process_rows lib world all_shipments k ((index, r) # rest) g =
        process_rows lib world all_shipments (Suc k) rest g') \<and>
   length (errors (process_rows lib world all_shipments k rows g)) =
     length (errors g) +
     length (filter (\<lambda>(index, r). isl (fst (process_record lib w0 r index all_shipments g0))) rows) \<and>
   length (shipment_data (process_rows lib world all_shipments k rows g)) =
     length (shipment_data g) +
     4 * length (filter (\<lambda>(index, r). \<not> isl (fst (process_record lib w0 r index all_shipments g0))) rows)"
proof -
  have step: "process_record lib (world k) r index all_shipments g = (Inl e, g') \<longrightarrow>
      errors g' = errors g @ [''Error registro '' @ str_int index @ '': '' @ str_error e] \<and>
      shipment_data g' = shipment_data g \<and>
      process_rows lib world all_shipments k ((index, r) # rest) g =
        process_rows lib world all_shipments (Suc k) rest g'"
  proof
    assume pr: "process_record lib (world k) r index all_shipments g = (Inl e, g')"
    show "errors g' = errors g @ [''Error registro '' @ str_int index @ '': '' @ str_error e] \<and>
      shipment_data g' = shipment_data g \<and>
      process_rows lib world all_shipments k ((index, r) # rest) g =
        process_rows lib world all_shipments (Suc k) rest g'"
      using process_record_Inl [OF pr] pr by simp
  qed
  show ?thesis
    using step process_rows_counts [of lib world all_shipments k rows g w0 g0] by blast
qed

lemmas row_eval = manifest_row_def col_defs py_bind_def getitem_def row_get_def
  safe_int_conversion_def safe_numeric_conversion_def pd_isna_def py_int_of_float_def
  except_ValueError_def example_library_def float_infinity_error_def int_too_large_error_def

lemma read_row_beer: "read_row_fields example_library row_beer index = Inr fields_beer"
  by (simp add: read_row_fields_def row_beer_def fields_beer_def row_eval)

lemma read_row_pallet: "read_row_fields example_library row_pallet index = Inr fields_pallet"
  by (simp add: read_row_fields_def row_pallet_def fields_pallet_def row_eval)

lemma read_row_broken: "read_row_fields example_library row_broken index = Inl float_infinity_error"
  by (simp add: read_row_fields_def row_broken_def row_eval py_strip_def py_isspace_def)

lemma route_key_10_20: "route_key 10 20 = ''10-20''"
  by (simp add: route_key_def str_eval)

lemma example_routes:
  "viaje_routes_loop example_library 3 example_shipments [] = Inr [''10-20'']"
  by (simp add: example_shipments_def row_beer_def row_broken_def row_pallet_def row_eval
      route_key_10_20)

lemma example_correlative:
  "generate_unique_route_correlative example_library 3 10 20 example_shipments = Inr 301"
  by (simp add: generate_unique_route_correlative_def example_routes py_bind_def route_key_10_20)

lemma process_beer:
  "fst (process_record example_library w row_beer index example_shipments g) =
     Inr (record_group example_library w row_beer index fields_beer
            (fst (resolve_master_data example_library w fields_beer g)) 7)"
  by (simp add: process_record_def read_row_beer split_beta Let_def fields_beer_def
      example_correlative PALLET_PRODUCT_CODE_def)

lemma process_pallet:
  "fst (process_record example_library w row_pallet index example_shipments g) =
     Inr (record_group example_library w row_pallet index fields_pallet
            (fst (resolve_master_data example_library w fields_pallet g)) 24)"
  by (simp add: process_record_def read_row_pallet split_beta Let_def fields_pallet_def
      example_correlative PALLET_PRODUCT_CODE_def PALLET_QUANTITY_def)

lemma not_below_2_53: "\<not> \<bar>(2 :: int) ^ 1024\<bar> < 2 ^ 53"
  by simp

lemma read_row_heavy: "read_row_fields example_library row_heavy index = Inl int_too_large_error"
  by (simp add: read_row_fields_def row_heavy_def row_beer_def row_eval not_below_2_53)

lemma process_heavy:
  "process_record example_library w row_heavy index example_shipments g =
     (Inl int_too_large_error, record_error index int_too_large_error g)"
  by (simp add: process_record_def read_row_heavy)

lemma process_broken:
  "process_record example_library w row_broken index example_shipments g =
     (Inl float_infinity_error, record_error index float_infinity_error g)"
  by (simp add: process_record_def read_row_broken)

lemma example_rows_raise:
  "filter (\<lambda>(index, r). isl (fst (process_record example_library example_moment r
             index example_shipments (new_generator example_store)))) example_rows =
   [(1, row_broken)]"
  by (simp add: example_rows_def process_beer process_pallet process_broken)

lemma example_rows_pass:
  "filter (\<lambda>(index, r). \<not> isl (fst (process_record example_library example_moment r
             index example_shipments (new_generator example_store)))) example_rows =
   [(0, row_beer), (2, row_pallet)]"
  by (simp add: example_rows_def process_beer process_pallet process_broken)

lemma heavy_rows_raise:
  "filter (\<lambda>(index, r). isl (fst (process_record example_library example_moment r
             index example_shipments (new_generator example_store)))) heavy_rows =
   [(3, row_heavy)]"
  by (simp add: heavy_rows_def process_beer process_heavy)

lemma heavy_rows_pass:
  "filter (\<lambda>(index, r). \<not> isl (fst (process_record example_library example_moment r
             index example_shipments (new_generator example_store)))) heavy_rows =
   [(4, row_beer)]"
  by (simp add: heavy_rows_def process_beer process_heavy)

theorem failed_row_is_skipped_witness:
  "process_record example_library (example_world 1) row_broken 1 example_shipments
     (new_generator example_store) =
     (Inl float_infinity_error, record_error 1 float_infinity_error (new_generator example_store)) \<and>
   errors (record_error 1 float_infinity_error (new_generator example_store)) =
     [''Error registro 1: cannot convert float infinity to integer''] \<and>
   shipment_data (record_error 1 float_infinity_error (new_generator example_store)) = [] \<and>
   process_rows example_library example_world example_shipments 1
       [(1, row_broken), (2, row_pallet)] (new_generator example_store) =
     process_rows example_library example_world example_shipments (Suc 1)
       [(2, row_pallet)] (record_error 1 float_infinity_error (new_generator example_store)) \<and>
   length (errors (process_rows example_library example_world example_shipments 0
       example_rows (new_generator example_store))) = 1 \<and>
   length (shipment_data (process_rows example_library example_world example_shipments 0
       example_rows (new_generator example_store))) = 8 \<and>
   row_heavy col_peso = Some (CInt (2 ^ 1024)) \<and>
   process_record example_library (example_world 3) row_heavy 3 example_shipments
     (new_generator example_store) =
     (Inl int_too_large_error, record_error 3 int_too_large_error (new_generator example_store)) \<and>
   errors (record_error 3 int_too_large_error (new_generator example_store)) =
     [''Error registro 3: int too large to convert to float''] \<and>
   shipment_data (record_error 3 int_too_large_error (new_generator example_store)) = [] \<and>
   length (errors (process_rows example_library example_world example_shipments 0
       heavy_rows (new_generator example_store))) = 1 \<and>
   length (shipment_data (process_rows example_library example_world example_shipments 0
       heavy_rows (new_generator example_store))) = 4"
proof -
  have heavy: "row_heavy col_peso = Some (CInt (2 ^ 1024))"
    by (simp add: row_heavy_def)
  have prh: "process_record example_library (example_world 3) row_heavy 3 example_shipments
     (new_generator example_store) =
     (Inl int_too_large_error, record_error 3 int_too_large_error (new_generator example_store))"
    by (rule process_heavy)
  have msgh: "''Error registro '' @ str_int 3 @ '': '' @ str_error int_too_large_error =
     ''Error registro 3: int too large to convert to float''"
    by (simp add: str_eval str_error_def int_too_large_error_def)
  have pr: "process_record example_library (example_world 1) row_broken 1 example_shipments
     (new_generator example_store) =
     (Inl float_infinity_error, record_error 1 float_infinity_error (new_generator example_store))"
    by (rule process_broken)
  have msg: "''Error registro '' @ str_int 1 @ '': '' @ str_error float_infinity_error =
     ''Error registro 1: cannot convert float infinity to integer''"
    by (simp add: str_eval str_error_def float_infinity_error_def)
  have init: "errors (new_generator example_store) = []"
    "shipment_data (new_generator example_store) = []"
    by (simp_all add: new_generator_def)
  have step: "errors (record_error 1 float_infinity_error (new_generator example_store)) =
      errors (new_generator example_store) @
        [''Error registro '' @ str_int 1 @ '': '' @ str_error float_infinity_error] \<and>
    shipment_data (record_error 1 float_infinity_error (new_generator example_store)) =
      shipment_data (new_generator example_store) \<and>
    process_rows example_library example_world example_shipments 1
       ((1, row_broken) # [(2, row_pallet)]) (new_generator example_store) =
     process_rows example_library example_world example_shipments (Suc 1)
       [(2, row_pallet)] (record_error 1 float_infinity_error (new_generator example_store))"
    using failed_row_is_skipped [of example_library example_world 1 row_broken 1
        example_shipments "new_generator example_store" float_infinity_error
        "record_error 1 float_infinity_error (new_generator example_store)" "[(2, row_pallet)]"] pr
    by blast
  have counts: "length (errors (process_rows example_library example_world example_shipments 0
       example_rows (new_generator example_store))) =
       length (errors (new_generator example_store)) + length [(1 :: int, row_broken)] \<and>
     length (shipment_data (process_rows example_library example_world example_shipments 0
       example_rows (new_generator example_store))) =
       length (shipment_data (new_generator example_store)) +
       4 * length [(0 :: int, row_beer), (2, row_pallet)]"
    using failed_row_is_skipped [of example_library example_world 0 _ _
        example_shipments "new_generator example_store" _ _ _
        example_rows example_moment "new_generator example_store"]
    unfolding example_rows_raise example_rows_pass by blast
  have a: "errors (record_error 1 float_infinity_error (new_generator example_store)) =
     [''Error registro 1: cannot convert float infinity to integer'']"
    using step msg init by simp
  have b: "shipment_data (record_error 1 float_infinity_error (new_generator example_store)) = []"
    using step init by simp
  have c: "length (errors (process_rows example_library example_world example_shipments 0
       example_rows (new_generator example_store))) = 1"
    using counts init by simp
  have d: "length (shipment_data (process_rows example_library example_world example_shipments 0
       example_rows (new_generator example_store))) = 8"
    using counts init by simp
  have steph: "errors (record_error 3 int_too_large_error (new_generator example_store)) =
      errors (new_generator example_store) @
        [''Error registro '' @ str_int 3 @ '': '' @ str_error int_too_large_error] \<and>
    shipment_data (record_error 3 int_too_large_error (new_generator example_store)) =
      shipment_data (new_generator example_store)"
    using failed_row_is_skipped [of example_library example_world 3 row_heavy 3
        example_shipments "new_generator example_store" int_too_large_error
        "record_error 3 int_too_large_error (new_generator example_store)" "[]"] prh
    by blast
  have ah: "errors (record_error 3 int_too_large_error (new_generator example_store)) =
     [''Error registro 3: int too large to convert to float'']"
    using steph msgh init by simp
  have bh: "shipment_data (record_error 3 int_too_large_error (new_generator example_store)) = []"
    using steph init by simp
  have countsh: "length (errors (process_rows example_library example_world example_shipments 0
       heavy_rows (new_generator example_store))) =
       length (errors (new_generator example_store)) + length [(3 :: int, row_heavy)] \<and>
     length (shipment_data (process_rows example_library example_world example_shipments 0
       heavy_rows (new_generator example_store))) =
       length (shipment_data (new_generator example_store)) +
       4 * length [(4 :: int, row_beer)]"
    using failed_row_is_skipped [of example_library example_world 0 _ _
        example_shipments "new_generator example_store" _ _ _
        heavy_rows example_moment "new_generator example_store"]
    unfolding heavy_rows_raise heavy_rows_pass by blast
  have ch: "length (errors (process_rows example_library example_world example_shipments 0
       heavy_rows (new_generator example_store))) = 1"
    using countsh init by simp
  have dh: "length (shipment_data (process_rows example_library example_world example_shipments 0
       heavy_rows (new_generator example_store))) = 4"
    using countsh init by simp
  show ?thesis
    using pr a b c d step heavy prh ah bh ch dh by blast
qed

lemma process_record_fst_Inr:
  "fst (process_record lib w r index all_shipments g) = Inr records \<Longrightarrow>
   \<exists>f res g1. read_row_fields lib r index = Inr f \<and>
           resolve_master_data lib w f g = (res, g1) \<and>
           records = record_group lib w r index f res
                       (if code_prod f = PALLET_PRODUCT_CODE then PALLET_QUANTITY
                        else stated_pallets f)"
  using process_record_Inr [of lib w r index all_shipments g records
      "snd (process_record lib w r index all_shipments g)"]
  by (metis prod.collapse)

lemma record_group_nth3:
  "record_group lib w r index f res q ! 3 =
     detail3_record q (process_weight (base_weight f) q) (hectolitros res) (bultos res)"
  by (simp add: record_group_def Let_def)

lemma record_group_hd:
  "Shipment_Number (hd (record_group lib w r index f res q)) =
     VStr (generate_shipment_number lib r index)"
  by (simp add: record_group_def Let_def header_record_def)

lemma detail3_record_fields:
  "Quantity (detail3_record q tw hl bu) = VInt q \<and>
   Weight (detail3_record q tw hl bu) = pyval_of_num tw \<and>
   Hectolitros (detail3_record q tw hl bu) = VFloat hl \<and>
   Bultos (detail3_record q tw hl bu) = VInt bu"
  by (simp add: detail3_record_def)

text \<open>
  C8. For a row whose product code, as converted from its cell, is the pallet product
  code 1100, every successful processing emits four records, and the Quantity of the
  third detail record (the fourth record) is the constant 24, whatever pallet count the
  row states.
\<close>

theorem pallet_code_forces_quantity:
  assumes cell: "r col_cod_prod = Some c"
    and code: "safe_int_conversion lib c 0 = Inr 1100"
    and ok: "fst (process_record lib w r index all_shipments g) = Inr records"
  shows "length records = 4 \<and> Quantity (records ! 3) = VInt 24"
proof -
  obtain f res where rf: "read_row_fields lib r index = Inr f"
    and recs: "records = record_group lib w r index f res
                 (if code_prod f = PALLET_PRODUCT_CODE then PALLET_QUANTITY else stated_pallets f)"
    using process_record_fst_Inr [OF ok] by blast
  have "safe_int_conversion lib c 0 = Inr (code_prod f)"
    using read_row_fields_Inr [OF rf] cell by auto
  then have "code_prod f = 1100"
    using code by simp
  then have "records = record_group lib w r index f res 24"
    using recs by (simp add: PALLET_PRODUCT_CODE_def PALLET_QUANTITY_def)
  then show ?thesis
    by (simp add: length_record_group record_group_nth3 detail3_record_fields)
qed

theorem pallet_code_forces_quantity_witness:
  "row_pallet col_cod_prod = Some (CInt 1100) \<and>
   safe_int_conversion example_library (CInt 1100) 0 = Inr 1100 \<and>
   row_pallet col_pallets = Some (CInt 7) \<and>
   fst (process_record example_library example_moment row_pallet 2 example_shipments
          (new_generator example_store)) =
     Inr (record_group example_library example_moment row_pallet 2 fields_pallet
            (fst (resolve_master_data example_library example_moment fields_pallet (new_generator example_store)))
            24) \<and>
   Quantity (record_group example_library example_moment row_pallet 2 fields_pallet
            (fst (resolve_master_data example_library example_moment fields_pallet (new_generator example_store)))
            24 ! 3) = VInt 24"
proof -
  have a: "row_pallet col_cod_prod = Some (CInt 1100)"
    and b: "row_pallet col_pallets = Some (CInt 7)"
    by (simp_all add: row_pallet_def manifest_row_def col_defs)
  have c: "safe_int_conversion example_library (CInt 1100) 0 = Inr 1100"
    by (simp add: safe_int_conversion_def pd_isna_def)
  show ?thesis
    using pallet_code_forces_quantity [OF a c process_pallet] a b c process_pallet
    by blast
qed

text \<open>
  C10. For a row whose product code is 1100, the Hectolitros and Bultos of the third
  detail record are the lookups for the pallet count stated in the row, while Quantity is
  24 and Weight is the base weight plus 24 * 45: the override is applied after the
  lookups and before the weight. The base weight is the converted weight cell, a float,
  or the integer 0 when the cell is empty.
\<close>

theorem pallet_volume_uses_stated_count:
  assumes cell: "r col_cod_prod = Some c"
    and code: "safe_int_conversion lib c 0 = Inr 1100"
    and pcell: "r col_pallets = Some cp"
    and stated: "safe_int_conversion lib cp 1 = Inr n"
    and wcell: "r col_peso = Some cw"
    and ok: "fst (process_record lib w r index all_shipments g) = Inr records"
  shows "Hectolitros (records ! 3) = VFloat (get_hectolitros lib (db g) 1100 n) \<and>
         Bultos (records ! 3) = VInt (get_bultos (db g) 1100 n) \<and>
         Quantity (records ! 3) = VInt 24 \<and>
         (\<exists>weight. safe_numeric_conversion lib cw (NInt 0) = Inr weight \<and>
            Weight (records ! 3) = pyval_of_num (process_weight weight 24)) \<and>
         process_weight (NFloat (Fin b)) 24 = NFloat (Fin (b + of_int (24 * 45))) \<and>
         process_weight (NInt i) 24 = NInt (i + 24 * 45)"
proof -
  obtain f res g1 where rf: "read_row_fields lib r index = Inr f"
    and rs: "resolve_master_data lib w f g = (res, g1)"
    and recs: "records = record_group lib w r index f res
                 (if code_prod f = PALLET_PRODUCT_CODE then PALLET_QUANTITY else stated_pallets f)"
    using process_record_fst_Inr [OF ok] by blast
  have fields: "safe_int_conversion lib c 0 = Inr (code_prod f)"
    "safe_int_conversion lib cp 1 = Inr (stated_pallets f)"
    "safe_numeric_conversion lib cw (NInt 0) = Inr (base_weight f)"
    using read_row_fields_Inr [OF rf] cell pcell wcell by auto
  have cp: "code_prod f = 1100" and sp: "stated_pallets f = n"
    using fields code stated by simp_all
  have recs24: "records = record_group lib w r index f res 24"
    using recs cp by (simp add: PALLET_PRODUCT_CODE_def PALLET_QUANTITY_def)
  have vals: "hectolitros res = get_hectolitros lib (db g) 1100 n"
    "bultos res = get_bultos (db g) 1100 n"
    using resolve_master_data_values [OF rs] cp sp by simp_all
  have wt: "process_weight (NFloat (Fin b)) 24 = NFloat (Fin (b + of_int (24 * 45)))"
    by (simp add: process_weight_def WEIGHT_PER_UNIT_def)
  have wi: "process_weight (NInt i) 24 = NInt (i + 24 * 45)"
    by (simp add: process_weight_def WEIGHT_PER_UNIT_def)
  show ?thesis
    using vals fields(3) wt wi
    by (simp add: recs24 record_group_nth3 detail3_record_fields)
qed

theorem pallet_volume_uses_stated_count_witness:
  "row_pallet col_cod_prod = Some (CInt 1100) \<and>
   safe_int_conversion example_library (CInt 1100) 0 = Inr 1100 \<and>
   row_pallet col_pallets = Some (CInt 7) \<and>
   safe_int_conversion example_library (CInt 7) 1 = Inr 7 \<and>
   row_pallet col_peso = Some (CInt 1000) \<and>
   safe_numeric_conversion example_library (CInt 1000) (NInt 0) = Inr (NFloat (Fin 1000)) \<and>
   Hectolitros (record_group example_library example_moment row_pallet 2 fields_pallet
     (fst (resolve_master_data example_library example_moment fields_pallet (new_generator example_store)))
     24 ! 3) = VFloat (Fin (7 / 4)) \<and>
   Bultos (record_group example_library example_moment row_pallet 2 fields_pallet
     (fst (resolve_master_data example_library example_moment fields_pallet (new_generator example_store)))
     24 ! 3) = VInt 14 \<and>
   Quantity (record_group example_library example_moment row_pallet 2 fields_pallet
     (fst (resolve_master_data example_library example_moment fields_pallet (new_generator example_store)))
     24 ! 3) = VInt 24 \<and>
   Weight (record_group example_library example_moment row_pallet 2 fields_pallet
     (fst (resolve_master_data example_library example_moment fields_pallet (new_generator example_store)))
     24 ! 3) = VFloat (Fin 2080)"
proof -
  have a: "row_pallet col_cod_prod = Some (CInt 1100)"
    and b: "row_pallet col_pallets = Some (CInt 7)"
    and c: "row_pallet col_peso = Some (CInt 1000)"
    by (simp_all add: row_pallet_def manifest_row_def col_defs)
  have d: "safe_int_conversion example_library (CInt 1100) 0 = Inr 1100"
    and e: "safe_int_conversion example_library (CInt 7) 1 = Inr 7"
    by (simp_all add: safe_int_conversion_def pd_isna_def)
  have hl: "get_hectolitros example_library (db (new_generator example_store)) 1100 7 =
            Fin (7 / 4)"
    by (simp add: new_generator_def get_hectolitros_def hectolitros_of_rate_def
        example_store_def envase_1100_def truthy_rate_def example_library_def
        example_float_mul_def)
  have bu: "get_bultos (db (new_generator example_store)) 1100 7 = 14"
    by (simp add: new_generator_def get_bultos_def example_store_def envase_1100_def
        truthy_rate_def rat_eval)
  have cv: "safe_numeric_conversion example_library (CInt 1000) (NInt 0) = Inr (NFloat (Fin 1000))"
    by (simp add: safe_numeric_conversion_def pd_isna_def example_library_def)
  have wt: "pyval_of_num (process_weight (NFloat (Fin 1000)) 24) = VFloat (Fin 2080)"
    by (simp add: process_weight_def WEIGHT_PER_UNIT_def pyval_of_num_def)
  note inst = pallet_volume_uses_stated_count
    [OF a d b e c process_pallet [of example_moment 2 "new_generator example_store"],
      where b = 0 and i = 0]
  have f: "Hectolitros (record_group example_library example_moment row_pallet 2 fields_pallet
     (fst (resolve_master_data example_library example_moment fields_pallet (new_generator example_store)))
     24 ! 3) = VFloat (Fin (7 / 4))"
    using inst hl by simp
  have g: "Bultos (record_group example_library example_moment row_pallet 2 fields_pallet
     (fst (resolve_master_data example_library example_moment fields_pallet (new_generator example_store)))
     24 ! 3) = VInt 14"
    using inst bu by simp
  have h: "Quantity (record_group example_library example_moment row_pallet 2 fields_pallet
     (fst (resolve_master_data example_library example_moment fields_pallet (new_generator example_store)))
     24 ! 3) = VInt 24"
    using inst by simp
  have i: "Weight (record_group example_library example_moment row_pallet 2 fields_pallet
     (fst (resolve_master_data example_library example_moment fields_pallet (new_generator example_store)))
     24 ! 3) = VFloat (Fin 2080)"
    using inst cv wt by simp
  show ?thesis
    using a b c d e cv f g h i by blast
qed

lemma row_get_str_eq: "r1 k = r2 k \<Longrightarrow> row_get_str lib r1 k = row_get_str lib r2 k"
  by (simp add: row_get_str_def)

lemma generate_shipment_number_eq:
  assumes "r1 col_cod_envio = r2 col_cod_envio" "r1 col_cod_prod = r2 col_cod_prod"
    "r1 col_cod_origen = r2 col_cod_origen" "r1 col_cod_destino = r2 col_cod_destino"
  shows "generate_shipment_number lib r1 index = generate_shipment_number lib r2 index"
  using assms by (simp add: generate_shipment_number_def unique_string_def row_get_str_def)

text \<open>
  C2. The shipment number is a function of the shipment identifier, the product code,
  the origin, the destination (the four cells as the row holds them) and the row index:
  two rows that agree on these four cells get the same shipment number at the same
  index, whatever their other cells. Inside \<open>process_record\<close> the number written to the
  header is this value, whatever the moment of the call, the other rows of the file and
  the state of the generator and of the store.
\<close>

theorem shipment_number_deterministic:
  assumes "r1 col_cod_envio = r2 col_cod_envio" "r1 col_cod_prod = r2 col_cod_prod"
    "r1 col_cod_origen = r2 col_cod_origen" "r1 col_cod_destino = r2 col_cod_destino"
  shows "generate_shipment_number lib r1 index = generate_shipment_number lib r2 index \<and>
         (fst (process_record lib w1 r1 index all1 g1) = Inr records1 \<and>
          fst (process_record lib w2 r2 index all2 g2) = Inr records2 \<longrightarrow>
            Shipment_Number (hd records1) = VStr (generate_shipment_number lib r1 index) \<and>
            Shipment_Number (hd records2) = Shipment_Number (hd records1))"
proof -
  have eq: "generate_shipment_number lib r1 index = generate_shipment_number lib r2 index"
    using assms by (rule generate_shipment_number_eq)
  have hd1: "Shipment_Number (hd records) = VStr (generate_shipment_number lib r index)"
    if "fst (process_record lib w r index all_shipments g) = Inr records"
    for w r all_shipments g records
    using process_record_fst_Inr [OF that] by (auto simp: record_group_hd)
  show ?thesis
    using eq hd1 by auto
qed

lemma read_row_beer_variant:
  "read_row_fields example_library row_beer_variant index = Inr fields_beer_variant"
  by (simp add: read_row_fields_def row_beer_variant_def row_beer_def fields_beer_variant_def
      row_eval example_library_def py_strip_def py_isspace_def)

lemma variant_correlative:
  "generate_unique_route_correlative example_library 3 10 20 [row_beer_variant] = Inr 301"
  by (simp add: generate_unique_route_correlative_def row_beer_variant_def row_beer_def row_eval
      route_key_10_20)

lemma process_beer_variant:
  "fst (process_record example_library w row_beer_variant index [row_beer_variant] g) =
     Inr (record_group example_library w row_beer_variant index fields_beer_variant
            (fst (resolve_master_data example_library w fields_beer_variant g)) 9)"
  by (simp add: process_record_def read_row_beer_variant split_beta Let_def
      fields_beer_variant_def variant_correlative PALLET_PRODUCT_CODE_def)

lemma example_shipment_number:
  "generate_shipment_number example_library row_beer 0 = ''BO2226565535''"
  by (simp add: generate_shipment_number_def example_library_def int_base16_def hex_digit_def
      Let_def str_eval COUNTRY_CHAR_def)

theorem shipment_number_deterministic_witness:
  "row_beer col_cod_envio = row_beer_variant col_cod_envio \<and>
   row_beer col_cod_prod = row_beer_variant col_cod_prod \<and>
   row_beer col_cod_origen = row_beer_variant col_cod_origen \<and>
   row_beer col_cod_destino = row_beer_variant col_cod_destino \<and>
   row_beer col_pallets \<noteq> row_beer_variant col_pallets \<and>
   generate_shipment_number example_library row_beer_variant 0 = ''BO2226565535'' \<and>
   Shipment_Number (hd (record_group example_library later_moment row_beer_variant 0
      fields_beer_variant (fst (resolve_master_data example_library later_moment fields_beer_variant
      used_generator)) 9)) =
   Shipment_Number (hd (record_group example_library example_moment row_beer 0 fields_beer
      (fst (resolve_master_data example_library example_moment fields_beer (new_generator example_store))) 7))"
proof -
  have a: "row_beer col_cod_envio = row_beer_variant col_cod_envio"
    and b: "row_beer col_cod_prod = row_beer_variant col_cod_prod"
    and c: "row_beer col_cod_origen = row_beer_variant col_cod_origen"
    and d: "row_beer col_cod_destino = row_beer_variant col_cod_destino"
    and e: "row_beer col_pallets \<noteq> row_beer_variant col_pallets"
    by (simp_all add: row_beer_variant_def row_beer_def manifest_row_def col_defs)
  show ?thesis
    using shipment_number_deterministic [OF a b c d, of example_library 0 example_moment
        example_shipments "new_generator example_store" _ later_moment "[row_beer_variant]"
        used_generator]
      process_beer process_beer_variant a b c d e example_shipment_number
    by metis
qed

lemma resolve_master_data_snd:
  "shipment_data (snd (resolve_master_data lib w f g)) = shipment_data g"
  "errors (snd (resolve_master_data lib w f g)) = errors g"
  "header_records (snd (resolve_master_data lib w f g)) = header_records g"
  "detail_records (snd (resolve_master_data lib w f g)) = detail_records g"
  using resolve_master_data_keeps [of lib w f g "fst (resolve_master_data lib w f g)"
      "snd (resolve_master_data lib w f g)"]
  by simp_all

lemma process_beer_state:
  "snd (process_record example_library w row_beer index example_shipments g) =
     emit_records (record_group example_library w row_beer index fields_beer
                     (fst (resolve_master_data example_library w fields_beer g)) 7)
       (snd (resolve_master_data example_library w fields_beer g))"
  by (simp add: process_record_def read_row_beer split_beta Let_def fields_beer_def
      example_correlative PALLET_PRODUCT_CODE_def)

lemma process_pallet_state:
  "snd (process_record example_library w row_pallet index example_shipments g) =
     emit_records (record_group example_library w row_pallet index fields_pallet
                     (fst (resolve_master_data example_library w fields_pallet g)) 24)
       (snd (resolve_master_data example_library w fields_pallet g))"
  by (simp add: process_record_def read_row_pallet split_beta Let_def fields_pallet_def
      example_correlative PALLET_PRODUCT_CODE_def PALLET_QUANTITY_def)

lemma process_rows_step:
  "process_rows lib world all_shipments k ((index, r) # rest) g =
     (case fst (process_record lib (world k) r index all_shipments g) of
        Inr records \<Rightarrow>
          process_rows lib world all_shipments (Suc k) rest
            ((snd (process_record lib (world k) r index all_shipments g))
               \<lparr> shipment_data :=
                   shipment_data (snd (process_record lib (world k) r index all_shipments g)) @
                   records \<rparr>)
      | Inl e \<Rightarrow>
          process_rows lib world all_shipments (Suc k) rest
            (snd (process_record lib (world k) r index all_shipments g)))"
  by (cases "process_record lib (world k) r index all_shipments g")
     (simp split: sum.splits)

text \<open>
  The example table run from a fresh generator: two rows succeed, the row with the
  pallet count \<open>"inf"\<close> is skipped.
\<close>

lemma example_run:
  "header_records used_generator = 2"
  "detail_records used_generator = 6"
  "length (errors used_generator) = 1"
  "length (shipment_data used_generator) = 8"
  by (simp_all add: used_generator_def example_rows_def process_rows_step process_beer
      process_beer_state process_pallet process_pallet_state process_broken
      emit_records_counters resolve_master_data_snd record_error_keeps new_generator_def
      length_record_group del: process_rows.simps(2))

theorem detail_count_three_times_header_count_witness:
  "validate_uniqueness_before_processing example_table \<and>
   header_records (snd (process_all_data example_library example_world example_table
     (new_generator example_store))) = 2 \<and>
   detail_records (snd (process_all_data example_library example_world example_table
     (new_generator example_store))) = 6 \<and>
   count_type ''H'' (shipment_data (snd (process_all_data example_library example_world
     example_table (new_generator example_store)))) = 2 \<and>
   count_type ''D'' (shipment_data (snd (process_all_data example_library example_world
     example_table (new_generator example_store)))) = 6 \<and>
   length (errors (snd (process_all_data example_library example_world example_table
     (new_generator example_store)))) = 1"
proof -
  have v: "validate_uniqueness_before_processing example_table"
    by (simp add: validate_uniqueness_before_processing_def example_table_def
        example_columns_def)
  have run: "snd (process_all_data example_library example_world example_table
               (new_generator example_store)) = used_generator"
    using v
    by (simp add: process_all_data_def used_generator_def example_table_def example_rows_def
        example_shipments_def del: process_rows.simps(2))
  show ?thesis
    using detail_count_three_times_header_count [of example_library example_world
        example_table example_store] v example_run
    unfolding run by simp
qed

section \<open>PlateAvailabilityMerger\<close>

lemma dedup_loop_keys:
  "clave_unica ` set (dedup_loop xs us vs) = clave_unica ` set us \<union> (clave_unica ` set xs - vs)"
  if "vs = clave_unica ` set us"
  using that
proof (induction xs arbitrary: us vs)
  case Nil
  then show ?case by simp
next
  case (Cons x xs)
  show ?case
  proof (cases "clave_unica x \<in> vs")
    case True
    then show ?thesis
      using Cons.IH [of vs us] Cons.prems by auto
  next
    case False
    have "insert (clave_unica x) vs = clave_unica ` set (us @ [x])"
      using Cons.prems by auto
    then show ?thesis
      using Cons.IH [of "insert (clave_unica x) vs" "us @ [x]"] False Cons.prems by auto
  qed
qed

lemma dedup_loop_distinct:
  "distinct (map clave_unica (dedup_loop xs us vs))"
  if "vs = clave_unica ` set us" "distinct (map clave_unica us)"
  using that
proof (induction xs arbitrary: us vs)
  case Nil
  then show ?case by simp
next
  case (Cons x xs)
  show ?case
  proof (cases "clave_unica x \<in> vs")
    case True
    then show ?thesis
      using Cons.IH [of vs us] Cons.prems by simp
  next
    case False
    have a: "insert (clave_unica x) vs = clave_unica ` set (us @ [x])"
      using Cons.prems by auto
    have b: "distinct (map clave_unica (us @ [x]))"
      using Cons.prems False by auto
    show ?thesis
      using Cons.IH [OF a b] False by simp
  qed
qed

lemma dedup_loop_first:
  "p \<in> set (dedup_loop xs us vs) \<Longrightarrow>
   p \<in> set us \<or> (clave_unica p \<notin> vs \<and> find (\<lambda>q. clave_unica q = clave_unica p) xs = Some p)"
proof (induction xs arbitrary: us vs)
  case Nil
  then show ?case by simp
next
  case (Cons x xs)
  show ?case
  proof (cases "clave_unica x \<in> vs")
    case True
    then have "p \<in> set (dedup_loop xs us vs)"
      using Cons.prems by simp
    then show ?thesis
      using Cons.IH [of us vs] True by auto
  next
    case False
    then have "p \<in> set (dedup_loop xs (us @ [x]) (insert (clave_unica x) vs))"
      using Cons.prems by simp
    then show ?thesis
      using Cons.IH [of "us @ [x]" "insert (clave_unica x) vs"] False by auto
  qed
qed

lemma find_append_first:
  "find P (xs @ ys) = Some p \<Longrightarrow> \<exists>a\<in>set xs. P a \<Longrightarrow> find P xs = Some p"
  by (induction xs) (auto split: if_splits)

lemma find_Some_mem: "find P xs = Some p \<Longrightarrow> p \<in> set xs"
  by (induction xs) (auto split: if_splits)

lemma count_key_distinct:
  "distinct (map f xs) \<Longrightarrow>
   length (filter (\<lambda>p. f p = k) xs) = (if k \<in> f ` set xs then 1 else 0)"
  by (induction xs) auto

text \<open>
  C5. The composite key of an entry is its plate in upper case, an underscore, and its
  origin trimmed. For all source lists A (DB-qualified) and B (external): every key that
  occurs in A or in the normalised B, however often and in whichever source, occurs in
  exactly one entry of the roster; that entry is the first one with this key in the
  concatenation of A and B; and when the key occurs in A, it is the first entry of A with
  this key, so the Source-A entry is the one kept.
\<close>

theorem plate_merge_deduplicates:
  "distinct (map clave_unica (merge_plates A B)) \<and>
   clave_unica ` set (merge_plates A B) = clave_unica ` set (todas_las_placas A B) \<and>
   (\<forall>k. length (filter (\<lambda>p. clave_unica p = k) (merge_plates A B)) =
        (if k \<in> clave_unica ` set (todas_las_placas A B) then 1 else 0)) \<and>
   (\<forall>p \<in> set (merge_plates A B).
      find (\<lambda>q. clave_unica q = clave_unica p) (todas_las_placas A B) = Some p) \<and>
   (\<forall>p \<in> set (merge_plates A B).
      clave_unica p \<in> clave_unica ` set A \<longrightarrow>
        find (\<lambda>q. clave_unica q = clave_unica p) A = Some p)"
proof -
  let ?all = "todas_las_placas A B"
  let ?u = "dedup_loop ?all [] {}"
  have set_eq: "set (merge_plates A B) = set ?u"
    by (simp add: merge_plates_def)
  have du: "distinct (map clave_unica ?u)"
    by (rule dedup_loop_distinct) simp_all
  then have "distinct ?u \<and> inj_on clave_unica (set ?u)"
    by (simp add: distinct_map)
  then have d: "distinct (map clave_unica (merge_plates A B))"
    by (simp add: merge_plates_def distinct_map)
  have k: "clave_unica ` set (merge_plates A B) = clave_unica ` set ?all"
    using dedup_loop_keys [of "{}" "[]" ?all] by (simp add: set_eq)
  have c: "\<forall>k. length (filter (\<lambda>p. clave_unica p = k) (merge_plates A B)) =
        (if k \<in> clave_unica ` set ?all then 1 else 0)"
    using count_key_distinct [OF d] k by simp
  have f: "\<forall>p \<in> set (merge_plates A B).
      find (\<lambda>q. clave_unica q = clave_unica p) ?all = Some p"
    using dedup_loop_first [of _ ?all "[]" "{}"] by (auto simp: set_eq)
  have a: "\<forall>p \<in> set (merge_plates A B).
      clave_unica p \<in> clave_unica ` set A \<longrightarrow>
        find (\<lambda>q. clave_unica q = clave_unica p) A = Some p"
  proof (intro ballI impI)
    fix p
    assume p: "p \<in> set (merge_plates A B)" and inA: "clave_unica p \<in> clave_unica ` set A"
    have "find (\<lambda>q. clave_unica q = clave_unica p) (A @ map normalise_externa B) = Some p"
      using f p by (simp add: todas_las_placas_def)
    moreover have "\<exists>a\<in>set A. clave_unica a = clave_unica p"
      using inA by auto
    ultimately show "find (\<lambda>q. clave_unica q = clave_unica p) A = Some p"
      by (rule find_append_first)
  qed
  show ?thesis
    using d k c f a by blast
qed

lemma example_merge:
  "merge_plates example_placas_bd example_placas_externas =
     [\<lparr> Origen = ''C'', Placa = ''A_B'', Reusable = 0 \<rparr>,
      \<lparr> Origen = ''P1'', Placa = ''XYZ9'', Reusable = 0 \<rparr>,
      \<lparr> Origen = ''P2'', Placa = ''ABC123'', Reusable = 0 \<rparr>]"
  by (simp add: merge_plates_def todas_las_placas_def example_placas_bd_def
      example_placas_externas_def normalise_externa_def clave_unica_def py_upper_def
      py_upper_char_def py_strip_def py_isspace_def)

lemma example_keys:
  "clave_unica \<lparr> Origen = ''C'', Placa = ''A_B'', Reusable = 0 \<rparr> = ''A_B_C''"
  "clave_unica \<lparr> Origen = ''B_C'', Placa = ''A'', Reusable = 0 \<rparr> = ''A_B_C''"
  "clave_unica \<lparr> Origen = ''P2'', Placa = ''ABC123'', Reusable = 0 \<rparr> = ''ABC123_P2''"
  by (simp_all add: clave_unica_def py_upper_def py_upper_char_def py_strip_def py_isspace_def)

theorem plate_merge_deduplicates_witness:
  "\<lparr> Origen = ''C'', Placa = ''A_B'', Reusable = 0 \<rparr>
     \<in> set (merge_plates example_placas_bd example_placas_externas) \<and>
   clave_unica \<lparr> Origen = ''C'', Placa = ''A_B'', Reusable = 0 \<rparr>
     \<in> clave_unica ` set example_placas_bd \<and>
   clave_unica \<lparr> Origen = ''C'', Placa = ''A_B'', Reusable = 0 \<rparr>
     \<in> clave_unica ` set (map normalise_externa example_placas_externas) \<and>
   find (\<lambda>q. clave_unica q = clave_unica \<lparr> Origen = ''C'', Placa = ''A_B'', Reusable = 0 \<rparr>)
     example_placas_bd = Some \<lparr> Origen = ''C'', Placa = ''A_B'', Reusable = 0 \<rparr> \<and>
   \<lparr> Origen = ''B_C'', Placa = ''A'', Reusable = 0 \<rparr>
     \<notin> set (merge_plates example_placas_bd example_placas_externas) \<and>
   length (filter (\<lambda>p. clave_unica p = ''ABC123_P2'')
     (todas_las_placas example_placas_bd example_placas_externas)) = 3 \<and>
   length (filter (\<lambda>p. clave_unica p = ''ABC123_P2'')
     (merge_plates example_placas_bd example_placas_externas)) = 1"
proof -
  let ?p = "\<lparr> Origen = ''C'', Placa = ''A_B'', Reusable = 0 \<rparr>"
  note inst = plate_merge_deduplicates [of example_placas_bd example_placas_externas]
  have m: "?p \<in> set (merge_plates example_placas_bd example_placas_externas)"
    by (simp add: example_merge)
  have ka: "clave_unica ?p \<in> clave_unica ` set example_placas_bd"
    by (simp add: example_placas_bd_def)
  have kb: "clave_unica ?p \<in> clave_unica ` set (map normalise_externa example_placas_externas)"
    by (simp add: example_placas_externas_def normalise_externa_def example_keys py_upper_def
        py_upper_char_def py_strip_def py_isspace_def)
  have fa: "find (\<lambda>q. clave_unica q = clave_unica ?p) example_placas_bd = Some ?p"
    using inst m ka by blast
  have three: "length (filter (\<lambda>p. clave_unica p = ''ABC123_P2'')
     (todas_las_placas example_placas_bd example_placas_externas)) = 3"
    by (simp add: todas_las_placas_def example_placas_bd_def example_placas_externas_def
        normalise_externa_def clave_unica_def py_upper_def py_upper_char_def py_strip_def
        py_isspace_def)
  have one: "length (filter (\<lambda>p. clave_unica p = ''ABC123_P2'')
     (merge_plates example_placas_bd example_placas_externas)) = 1"
  proof -
    have "''ABC123_P2'' \<in> clave_unica ` set (todas_las_placas example_placas_bd example_placas_externas)"
      by (simp add: todas_las_placas_def example_placas_bd_def example_keys)
    then show ?thesis
      using inst by simp
  qed
  have nb: "\<lparr> Origen = ''B_C'', Placa = ''A'', Reusable = 0 \<rparr>
     \<notin> set (merge_plates example_placas_bd example_placas_externas)"
    by (simp add: example_merge)
  show ?thesis
    using m ka kb fa nb three one by blast
qed

section \<open>Filename date extraction\<close>

lemma countdown_set: "n \<in> set (countdown lo hi) \<longleftrightarrow> lo \<le> n \<and> n \<le> hi"
  by (induction hi) auto

lemma take_takeWhile_all:
  "n \<le> length (takeWhile P s) \<Longrightarrow> list_all P (take n s)"
proof (induction s arbitrary: n)
  case Nil
  then show ?case by simp
next
  case (Cons c s)
  then show ?case
    by (cases n) (auto split: if_splits)
qed

lemma matches_digit_group:
  assumes "(gs, rest) \<in> set (matches (Grp (Digits 1 2)) s)"
  shows "\<exists>g. gs = [g] \<and> one_or_two_digits g"
proof -
  obtain n where n: "1 \<le> n" "n \<le> min 2 (length (takeWhile is_digit s))"
    and gs: "gs = [take (length s - length (drop n s)) s]"
    using assms by (auto simp: countdown_set)
  have le: "n \<le> length s"
    using n(2) length_takeWhile_le [of is_digit s] by simp
  then have g: "take (length s - length (drop n s)) s = take n s"
    by simp
  have "list_all is_digit (take n s)"
    using n(2) by (simp add: take_takeWhile_all)
  then have "one_or_two_digits (take n s)"
    using n le by (simp add: one_or_two_digits_def)
  then show ?thesis
    using gs g by simp
qed

lemma matches_groups:
  "digit_groups r \<Longrightarrow> (gs, rest) \<in> set (matches r s) \<Longrightarrow>
   length gs = group_count r \<and> list_all one_or_two_digits gs"
proof (induction r arbitrary: gs rest s)
  case (Grp a)
  then have "(gs, rest) \<in> set (matches (Grp (Digits 1 2)) s)"
    by simp
  then obtain g where "gs = [g]" "one_or_two_digits g"
    using matches_digit_group by blast
  then show ?case
    using Grp.prems(1) by simp
next
  case (Seq a b)
  obtain g1 r1 g2 where a: "(g1, r1) \<in> set (matches a s)"
    and b: "(g2, rest) \<in> set (matches b r1)" and gs: "gs = g1 @ g2"
    using Seq.prems(2) by auto
  show ?case
    using Seq.IH(1) [OF _ a] Seq.IH(2) [OF _ b] Seq.prems(1) gs by simp
next
  case (Opt c)
  then show ?case by (auto split: list.splits if_splits)
qed (auto split: if_splits)

lemma re_search_matches:
  "re_search r s = Some gs \<Longrightarrow> \<exists>t rest. (gs, rest) \<in> set (matches r t)"
proof (induction s)
  case Nil
  show ?case
  proof (cases "matches r []")
    case Nil
    then show ?thesis
      using \<open>re_search r [] = Some gs\<close> by simp
  next
    case (Cons m ms)
    then have "(gs, snd m) \<in> set (matches r [])"
      using \<open>re_search r [] = Some gs\<close> by (cases m) simp
    then show ?thesis
      by blast
  qed
next
  case (Cons c s)
  show ?case
  proof (cases "matches r (c # s)")
    case Nil
    then show ?thesis
      using Cons by simp
  next
    case (Cons m ms)
    then have "(gs, snd m) \<in> set (matches r (c # s))"
      using Cons.prems by (cases m) simp
    then show ?thesis
      by blast
  qed
qed

lemma re_search_groups:
  assumes "digit_groups r" "group_count r = 2" "re_search r s = Some gs"
  shows "one_or_two_digits (gs ! 0) \<and> one_or_two_digits (gs ! 1)"
proof -
  obtain t rest where "(gs, rest) \<in> set (matches r t)"
    using re_search_matches [OF assms(3)] by blast
  then have "length gs = 2" "list_all one_or_two_digits gs"
    using matches_groups [OF assms(1)] assms(2) by auto
  then show ?thesis
    by (simp add: list_all_length)
qed

lemma zfill2_padded:
  assumes "one_or_two_digits g"
  shows "length (zfill2 g) = 2 \<and> list_all is_digit (zfill2 g)"
proof -
  have zero: "is_digit CHR ''0''"
    by (simp add: is_digit_def)
  have "list_all is_digit (replicate (2 - length g) CHR ''0'')"
    using zero by (simp add: list_all_iff)
  then show ?thesis
    using assms by (auto simp: one_or_two_digits_def zfill2_def)
qed

lemma pattern_shapes:
  "digit_groups pattern_sd" "group_count pattern_sd = 2"
  "digit_groups pattern_cb" "group_count pattern_cb = 2"
  "digit_groups pattern_generic" "group_count pattern_generic = 2"
  by (simp_all add: pattern_sd_def pattern_cb_def pattern_generic_def)

lemma first_pattern_match_padded:
  assumes "first_pattern_match n = Some (day, month)"
  shows "length day = 2 \<and> list_all is_digit day \<and> length month = 2 \<and> list_all is_digit month"
proof -
  have ok: "length (fst (padded_groups gs)) = 2 \<and> list_all is_digit (fst (padded_groups gs)) \<and>
            length (snd (padded_groups gs)) = 2 \<and> list_all is_digit (snd (padded_groups gs))"
    if "digit_groups r" "group_count r = 2" "re_search r n = Some gs" for r gs
    using re_search_groups [OF that] by (simp add: padded_groups_def zfill2_padded)
  show ?thesis
    using assms ok [OF pattern_shapes(1,2)] ok [OF pattern_shapes(3,4)] ok [OF pattern_shapes(5,6)]
    by (fastforce simp: first_pattern_match_def split: option.splits)
qed

text \<open>
  C6, as stated, fails on the code. In \<open>extract_date_from_filename\<close> a first match that
  is out of range ends the search: the name below matches the second pattern with day 45
  and month 13, the third pattern would give the valid day 28 and month 04, and the
  result is the current date. And \<open>extract_date_from_input_file\<close>, which serves the
  availability file, has no range check and no current-date fallback: it returns month
  13 and day 45 for a name of the third form, and nothing for a name without a match.
\<close>

theorem date_extraction_counterexample:
  "re_search pattern_sd (basename name_cb_out_of_range) = None \<and>
   re_search pattern_cb (basename name_cb_out_of_range) = Some [''45'', ''13''] \<and>
   re_search pattern_generic (basename name_cb_out_of_range) = Some [''28'', ''04''] \<and>
   valid_day_month ''28'' ''04'' \<and>
   extract_date_from_filename (''11'', ''06'') name_cb_out_of_range = (''11'', ''06'') \<and>
   extract_date_from_input_file name_generic_out_of_range = Some (''13'', ''45'') \<and>
   extract_date_from_input_file ''manifest.xlsx'' = None"
  by code_simp

text \<open>
  C6, amended. Both functions try the three patterns in the stated order on the base name
  of the path, and the first pattern that matches decides: its two groups, each padded
  with zeros to exactly two digits, are the day and the month. In
  \<open>extract_date_from_filename\<close> that first match is then checked: with the day in
  [1,31] and the month in [1,12] the result is (month, day); otherwise, and also when no
  pattern matches, the result is the current date, and no later pattern is tried.
  \<open>extract_date_from_input_file\<close> returns (month, day) of the first match as it is, and
  nothing when no pattern matches.
\<close>

theorem date_extraction_first_match:
  "(re_search pattern_sd n = Some gs \<longrightarrow>
      first_pattern_match n = Some (zfill2 (gs ! 0), zfill2 (gs ! 1))) \<and>
   (re_search pattern_sd n = None \<and> re_search pattern_cb n = Some gs \<longrightarrow>
      first_pattern_match n = Some (zfill2 (gs ! 0), zfill2 (gs ! 1))) \<and>
   (re_search pattern_sd n = None \<and> re_search pattern_cb n = None \<and>
    re_search pattern_generic n = Some gs \<longrightarrow>
      first_pattern_match n = Some (zfill2 (gs ! 0), zfill2 (gs ! 1))) \<and>
   (re_search pattern_sd n = None \<and> re_search pattern_cb n = None \<and>
    re_search pattern_generic n = None \<longrightarrow> first_pattern_match n = None) \<and>
   (first_pattern_match n = Some (day, month) \<longrightarrow>
      length day = 2 \<and> list_all is_digit day \<and> length month = 2 \<and> list_all is_digit month) \<and>
   (first_pattern_match (basename p) = Some (day, month) \<and> valid_day_month day month \<longrightarrow>
      extract_date_from_filename today p = (month, day)) \<and>
   (first_pattern_match (basename p) = Some (day, month) \<and> \<not> valid_day_month day month \<longrightarrow>
      extract_date_from_filename today p = today) \<and>
   (first_pattern_match (basename p) = None \<longrightarrow> extract_date_from_filename today p = today) \<and>
   (first_pattern_match (basename p) = Some (day, month) \<longrightarrow>
      extract_date_from_input_file p = Some (month, day)) \<and>
   (first_pattern_match (basename p) = None \<longrightarrow> extract_date_from_input_file p = None)"
proof -
  have chain:
    "re_search pattern_sd n = Some gs \<longrightarrow>
       first_pattern_match n = Some (zfill2 (gs ! 0), zfill2 (gs ! 1))"
    "re_search pattern_sd n = None \<and> re_search pattern_cb n = Some gs \<longrightarrow>
       first_pattern_match n = Some (zfill2 (gs ! 0), zfill2 (gs ! 1))"
    "re_search pattern_sd n = None \<and> re_search pattern_cb n = None \<and>
     re_search pattern_generic n = Some gs \<longrightarrow>
       first_pattern_match n = Some (zfill2 (gs ! 0), zfill2 (gs ! 1))"
    "re_search pattern_sd n = None \<and> re_search pattern_cb n = None \<and>
     re_search pattern_generic n = None \<longrightarrow> first_pattern_match n = None"
    by (simp_all add: first_pattern_match_def padded_groups_def)
  have padded: "first_pattern_match n = Some (day, month) \<longrightarrow>
      length day = 2 \<and> list_all is_digit day \<and> length month = 2 \<and> list_all is_digit month"
    using first_pattern_match_padded by blast
  have in_range:
    "first_pattern_match (basename p) = Some (day, month) \<and> valid_day_month day month \<longrightarrow>
       extract_date_from_filename today p = (month, day)"
    "first_pattern_match (basename p) = Some (day, month) \<and> \<not> valid_day_month day month \<longrightarrow>
       extract_date_from_filename today p = today"
    "first_pattern_match (basename p) = None \<longrightarrow> extract_date_from_filename today p = today"
    by (simp_all add: extract_date_from_filename_def)
  have as_found:
    "first_pattern_match (basename p) = Some (day, month) \<longrightarrow>
       extract_date_from_input_file p = Some (month, day)"
    "first_pattern_match (basename p) = None \<longrightarrow> extract_date_from_input_file p = None"
    by (simp_all add: extract_date_from_input_file_def)
  show ?thesis
    using chain padded in_range as_found by blast
qed

lemma example_searches:
  "re_search pattern_sd (basename name_sd) = Some [''5'', ''7'']"
  "re_search pattern_sd (basename name_cb) = None"
  "re_search pattern_cb (basename name_cb) = Some [''19'', ''06'']"
  "re_search pattern_sd (basename name_beer) = None"
  "re_search pattern_cb (basename name_beer) = None"
  "re_search pattern_generic (basename name_beer) = Some [''28'', ''04'']"
  "re_search pattern_sd (basename ''manifest.xlsx'') = None"
  "re_search pattern_cb (basename ''manifest.xlsx'') = None"
  "re_search pattern_generic (basename ''manifest.xlsx'') = None"
  "re_search pattern_sd (basename name_cb_out_of_range) = None"
  "re_search pattern_cb (basename name_cb_out_of_range) = Some [''45'', ''13'']"
  by code_simp+

lemma example_validity:
  "valid_day_month ''05'' ''07''" "valid_day_month ''19'' ''06''" "valid_day_month ''28'' ''04''"
  "\<not> valid_day_month ''45'' ''13''"
  by code_simp+

lemma example_padding:
  "zfill2 ''5'' = ''05''" "zfill2 ''7'' = ''07''"
  "zfill2 ''19'' = ''19''" "zfill2 ''06'' = ''06''" "zfill2 ''28'' = ''28''"
  "zfill2 ''04'' = ''04''" "zfill2 ''45'' = ''45''" "zfill2 ''13'' = ''13''"
  by (simp_all add: zfill2_def)

theorem date_extraction_first_match_witness:
  "extract_date_from_filename (''11'', ''06'') name_sd = (''07'', ''05'') \<and>
   extract_date_from_filename (''11'', ''06'') name_cb = (''06'', ''19'') \<and>
   extract_date_from_filename (''11'', ''06'') name_beer = (''04'', ''28'') \<and>
   extract_date_from_filename (''11'', ''06'') ''manifest.xlsx'' = (''11'', ''06'') \<and>
   extract_date_from_filename (''11'', ''06'') name_cb_out_of_range = (''11'', ''06'') \<and>
   extract_date_from_input_file name_cb_out_of_range = Some (''13'', ''45'') \<and>
   extract_date_from_input_file ''manifest.xlsx'' = None"
proof -
  have m1: "first_pattern_match (basename name_sd) = Some (''05'', ''07'')"
    using date_extraction_first_match [of "basename name_sd" "[''5'', ''7'']"]
      example_searches(1) by (simp add: example_padding)
  have m2: "first_pattern_match (basename name_cb) = Some (''19'', ''06'')"
    using date_extraction_first_match [of "basename name_cb" "[''19'', ''06'']"]
      example_searches(2,3) by (simp add: example_padding)
  have m3: "first_pattern_match (basename name_beer) = Some (''28'', ''04'')"
    using date_extraction_first_match [of "basename name_beer" "[''28'', ''04'']"]
      example_searches(4,5,6) by (simp add: example_padding)
  have m4: "first_pattern_match (basename ''manifest.xlsx'') = None"
    using date_extraction_first_match [of "basename ''manifest.xlsx''"]
      example_searches(7,8,9) by simp
  have m5: "first_pattern_match (basename name_cb_out_of_range) = Some (''45'', ''13'')"
    using date_extraction_first_match [of "basename name_cb_out_of_range" "[''45'', ''13'']"]
      example_searches(10,11) by (simp add: example_padding)
  have a: "extract_date_from_filename (''11'', ''06'') name_sd = (''07'', ''05'')"
    using date_extraction_first_match [of _ _ "''05''" "''07''" name_sd "(''11'', ''06'')"]
      m1 example_validity(1) by blast
  have b: "extract_date_from_filename (''11'', ''06'') name_cb = (''06'', ''19'')"
    using date_extraction_first_match [of _ _ "''19''" "''06''" name_cb "(''11'', ''06'')"]
      m2 example_validity(2) by blast
  have c: "extract_date_from_filename (''11'', ''06'') name_beer = (''04'', ''28'')"
    using date_extraction_first_match [of _ _ "''28''" "''04''" name_beer "(''11'', ''06'')"]
      m3 example_validity(3) by blast
  have d: "extract_date_from_filename (''11'', ''06'') ''manifest.xlsx'' = (''11'', ''06'')"
    using date_extraction_first_match [of _ _ _ _ "''manifest.xlsx''" "(''11'', ''06'')"]
      m4 by blast
  have e: "extract_date_from_filename (''11'', ''06'') name_cb_out_of_range = (''11'', ''06'')"
    using date_extraction_first_match [of _ _ "''45''" "''13''" name_cb_out_of_range
        "(''11'', ''06'')"] m5 example_validity(4) by blast
  have f: "extract_date_from_input_file name_cb_out_of_range = Some (''13'', ''45'')"
    using date_extraction_first_match [of _ _ "''45''" "''13''" name_cb_out_of_range] m5
    by blast
  have g: "extract_date_from_input_file ''manifest.xlsx'' = None"
    using date_extraction_first_match [of _ _ _ _ "''manifest.xlsx''"] m4 by blast
  show ?thesis
    using a b c d e f g by blast
qed

end
